theory Spec2Isabelle
  imports Main "HOL-Library.Char_ord" "HOL-Library.List_Lexorder"
    "HOL-Library.Product_Lexorder" "HOL-Library.Option_ord"
begin

section \<open>Image descriptors and their ordering (imageprovider.go)\<close>

record ImageDef =
  Version :: string
  BuildNo :: int
  UseCommunityEdition :: bool
  UseServerless :: bool
  UseColumnar :: bool

text \<open>
  \<^verbatim>\<open>CompareImageDefs\<close> calls \<^verbatim>\<open>semver.Compare\<close> of golang.org/x/mod, which is not part
  of this repository. The comparator is the first argument of the embedding; the
  function passes it \<^verbatim>\<open>"v"+a.Version\<close> and \<^verbatim>\<open>"v"+b.Version\<close> as the source does.
  \<^verbatim>\<open>BuildNo\<close> is a Go \<^verbatim>\<open>int\<close> that is only compared, so its width plays no part.
\<close>

definition CompareImageDefs :: "(string \<Rightarrow> string \<Rightarrow> int) \<Rightarrow> ImageDef \<Rightarrow> ImageDef \<Rightarrow> int" where
  "CompareImageDefs semverCompare a b =
     (let c = semverCompare (''v'' @ Version a) (''v'' @ Version b) in
      if c \<noteq> 0 then c
      else if BuildNo a < BuildNo b then - 1
      else if BuildNo a > BuildNo b then 1
      else if UseCommunityEdition a \<and> \<not> UseCommunityEdition b then - 1
      else if \<not> UseCommunityEdition a \<and> UseCommunityEdition b then 1
      else if \<not> UseServerless a \<and> UseServerless b then - 1
      else if UseServerless a \<and> \<not> UseServerless b then 1
      else if \<not> UseColumnar a \<and> UseColumnar b then - 1
      else if UseColumnar a \<and> \<not> UseColumnar b then 1
      else 0)"


section \<open>The version comparison of golang.org/x/mod/semver\<close>

text \<open>
  A model of the library's \<^verbatim>\<open>Compare\<close>, written after its source (\<^verbatim>\<open>semver.go\<close>): \<^verbatim>\<open>parse\<close>
  with \<^verbatim>\<open>parseInt\<close>, \<^verbatim>\<open>parsePrerelease\<close> and \<^verbatim>\<open>parseBuild\<close>, then \<^verbatim>\<open>compareInt\<close> on major,
  minor and patch and \<^verbatim>\<open>comparePrerelease\<close>. Strings are byte strings, compared as Go
  compares them (bytewise, a proper prefix first). The index loops of the source are
  recursions over the rest of the string: \<open>seen\<close> is \<^verbatim>\<open>v[:i]\<close> and \<open>ident\<close> is
  \<^verbatim>\<open>v[start:i]\<close>. \<open>compareIdent\<close> is the body of the loop of \<^verbatim>\<open>comparePrerelease\<close> for two
  identifiers that differ. An invalid version is less than a valid one, and two invalid
  ones compare equal.
\<close>

definition isDigit :: "char \<Rightarrow> bool" where
  "isDigit c \<longleftrightarrow> CHR ''0'' \<le> c \<and> c \<le> CHR ''9''"

definition isIdentChar :: "char \<Rightarrow> bool" where
  "isIdentChar c \<longleftrightarrow>
     CHR ''A'' \<le> c \<and> c \<le> CHR ''Z'' \<or> CHR ''a'' \<le> c \<and> c \<le> CHR ''z'' \<or>
     CHR ''0'' \<le> c \<and> c \<le> CHR ''9'' \<or> c = CHR ''-''"

definition isBadNum :: "string \<Rightarrow> bool" where
  "isBadNum v =
     (let i = length (takeWhile isDigit v) in i = length v \<and> 1 < i \<and> hd v = CHR ''0'')"

definition isNum :: "string \<Rightarrow> bool" where
  "isNum v = (length (takeWhile isDigit v) = length v)"

definition parseInt :: "string \<Rightarrow> (string \<times> string) option" where
  "parseInt v =
     (if v = [] then None
      else if \<not> isDigit (hd v) then None
      else
        (let i = length (takeWhile isDigit v) in
         if hd v = CHR ''0'' \<and> i \<noteq> 1 then None
         else Some (take i v, drop i v)))"

fun scanPrerelease :: "string \<Rightarrow> string \<Rightarrow> string \<Rightarrow> (string \<times> string) option" where
  "scanPrerelease seen ident [] =
     (if ident = [] \<or> isBadNum ident then None else Some (seen, []))"
| "scanPrerelease seen ident (c # rest) =
     (if c = CHR ''+'' then
        (if ident = [] \<or> isBadNum ident then None else Some (seen, c # rest))
      else if \<not> isIdentChar c \<and> c \<noteq> CHR ''.'' then None
      else if c = CHR ''.'' then
        (if ident = [] \<or> isBadNum ident then None else scanPrerelease (seen @ [c]) [] rest)
      else scanPrerelease (seen @ [c]) (ident @ [c]) rest)"

definition parsePrerelease :: "string \<Rightarrow> (string \<times> string) option" where
  "parsePrerelease v =
     (if v = [] \<or> hd v \<noteq> CHR ''-'' then None else scanPrerelease [hd v] [] (tl v))"

fun scanBuild :: "string \<Rightarrow> string \<Rightarrow> bool" where
  "scanBuild ident [] = (ident \<noteq> [])"
| "scanBuild ident (c # rest) =
     (if \<not> isIdentChar c \<and> c \<noteq> CHR ''.'' then False
      else if c = CHR ''.'' then (if ident = [] then False else scanBuild [] rest)
      else scanBuild (ident @ [c]) rest)"

definition parseBuild :: "string \<Rightarrow> (string \<times> string) option" where
  "parseBuild v =
     (if v = [] \<or> hd v \<noteq> CHR ''+'' then None
      else if scanBuild [] (tl v) then Some (v, [])
      else None)"

record parsed =
  major :: string
  minor :: string
  patch :: string
  short :: string
  prerelease :: string
  build :: string

definition parse :: "string \<Rightarrow> parsed option" where
  "parse v =
     (if v = [] \<or> hd v \<noteq> CHR ''v'' then None
      else
        (case parseInt (tl v) of
           None \<Rightarrow> None
         | Some (maj, v1) \<Rightarrow>
             if v1 = [] then
               Some \<lparr>major = maj, minor = ''0'', patch = ''0'', short = ''.0.0'',
                     prerelease = [], build = []\<rparr>
             else if hd v1 \<noteq> CHR ''.'' then None
             else
               (case parseInt (tl v1) of
                  None \<Rightarrow> None
                | Some (mi, v2) \<Rightarrow>
                    if v2 = [] then
                      Some \<lparr>major = maj, minor = mi, patch = ''0'', short = ''.0'',
                            prerelease = [], build = []\<rparr>
                    else if hd v2 \<noteq> CHR ''.'' then None
                    else
                      (case parseInt (tl v2) of
                         None \<Rightarrow> None
                       | Some (pa, v3) \<Rightarrow>
                           (case (if v3 \<noteq> [] \<and> hd v3 = CHR ''-'' then parsePrerelease v3
                                  else Some ([], v3)) of
                              None \<Rightarrow> None
                            | Some (pre, v4) \<Rightarrow>
                                (case (if v4 \<noteq> [] \<and> hd v4 = CHR ''+'' then parseBuild v4
                                       else Some ([], v4)) of
                                   None \<Rightarrow> None
                                 | Some (bld, v5) \<Rightarrow>
                                     if v5 \<noteq> [] then None
                                     else
                                       Some \<lparr>major = maj, minor = mi, patch = pa, short = [],
                                             prerelease = pre, build = bld\<rparr>))))))"

definition compareInt :: "string \<Rightarrow> string \<Rightarrow> int" where
  "compareInt x y =
     (if x = y then 0
      else if length x < length y then - 1
      else if length x > length y then 1
      else if x < y then - 1
      else 1)"

definition nextIdent :: "string \<Rightarrow> string \<times> string" where
  "nextIdent x = (takeWhile (\<lambda>c. c \<noteq> CHR ''.'') x, dropWhile (\<lambda>c. c \<noteq> CHR ''.'') x)"

definition compareIdent :: "string \<Rightarrow> string \<Rightarrow> int" where
  "compareIdent dx dy =
     (let ix = isNum dx; iy = isNum dy in
      if ix \<noteq> iy then (if ix then - 1 else 1)
      else if ix \<and> length dx < length dy then - 1
      else if ix \<and> length dx > length dy then 1
      else if dx < dy then - 1
      else 1)"

function comparePrerelease_loop :: "string \<Rightarrow> string \<Rightarrow> int" where
  "comparePrerelease_loop x y =
     (if x \<noteq> [] \<and> y \<noteq> [] then
        (let dx = fst (nextIdent (tl x)); x' = snd (nextIdent (tl x));
             dy = fst (nextIdent (tl y)); y' = snd (nextIdent (tl y))
         in if dx \<noteq> dy then compareIdent dx dy else comparePrerelease_loop x' y')
      else if x = [] then - 1
      else 1)"
  by pat_completeness auto
termination
proof (relation "measure (\<lambda>(x, y). length x)", goal_cases)
  case 1
  show ?case by simp
next
  case (2 x y dx x' dy y')
  have "length (dropWhile (\<lambda>c. c \<noteq> CHR ''.'') (tl x)) \<le> length (tl x)"
    by (rule length_dropWhile_le)
  then show ?case using 2 by (cases x) (simp_all add: nextIdent_def)
qed

definition comparePrerelease :: "string \<Rightarrow> string \<Rightarrow> int" where
  "comparePrerelease x y =
     (if x = y then 0
      else if x = [] then 1
      else if y = [] then - 1
      else comparePrerelease_loop x y)"

definition semver_Compare :: "string \<Rightarrow> string \<Rightarrow> int" where
  "semver_Compare v w =
     (case (parse v, parse w) of
        (None, None) \<Rightarrow> 0
      | (None, Some pw) \<Rightarrow> - 1
      | (Some pv, None) \<Rightarrow> 1
      | (Some pv, Some pw) \<Rightarrow>
          (let c = compareInt (major pv) (major pw) in
           if c \<noteq> 0 then c
           else
             (let c = compareInt (minor pv) (minor pw) in
              if c \<noteq> 0 then c
              else
                (let c = compareInt (patch pv) (patch pw) in
                 if c \<noteq> 0 then c
                 else comparePrerelease (prerelease pv) (prerelease pw)))))"

declare comparePrerelease_loop.simps [simp del]

section \<open>Values shared by the controller (controller.go)\<close>

text \<open>
  Go errors: \<open>Lib\<close> is an error made outside this package (the Docker client, the exec
  helper, \<^verbatim>\<open>archive/tar\<close>, \<^verbatim>\<open>encoding/json\<close>), \<open>New\<close> is \<^verbatim>\<open>errors.New(msg)\<close> and
  \<open>Wrap\<close> is \<^verbatim>\<open>errors.Wrap(err, msg)\<close>. A function whose Go result is \<^verbatim>\<open>error\<close> returns
  \<open>error option\<close> (\<open>None\<close> is \<^verbatim>\<open>nil\<close>); one whose result is \<^verbatim>\<open>(T, error)\<close> returns
  \<open>error + T\<close>.
\<close>

datatype error = Lib string | New string | Wrap error string

text \<open>
  A call either returns, or panics on a nil pointer, or (for the one unbounded loop of
  the file, modelled with fuel) has not returned when the fuel is used up.
\<close>

datatype 'a outcome = Returned 'a | NilPanic | OutOfFuel

text \<open>
  \<^verbatim>\<open>time.Time\<close> as an instant: nanoseconds counted from the zero value \<^verbatim>\<open>time.Time{}\<close>.
  Location and monotonic reading are left out.
\<close>

type_synonym Time = int

record NodeInfo =
  ContainerID :: string
  NodeID :: string
  ClusterID :: string
  Name :: string
  Creator :: string
  Owner :: string
  Purpose :: string
  Expiry :: Time
  IPAddress :: string
  InitialServerVersion :: string

record DockerNodeState =
  Expiry :: Time

record DockerNodeStateJson =
  Expiry :: Time

subsection \<open>The Docker client's types, as far as the controller reads them\<close>

record EndpointSettings =
  IPAddress :: string

text \<open>
  \<^verbatim>\<open>Networks map[string]*network.EndpointSettings\<close>: the list is the map in the order the
  \<^verbatim>\<open>range\<close> loop visits it (Go leaves that order open); a value can be a nil pointer.
\<close>

record SummaryNetworkSettings =
  Networks :: "(string \<times> EndpointSettings option) list"

record Container =
  ID :: string
  Labels :: "(string \<times> string) list"
  NetworkSettings :: "SummaryNetworkSettings option"

record IPAMConfig =
  Subnet :: string
  IPRange :: string
  Gateway :: string

record IPAM =
  Config :: "IPAMConfig list"

record NetworkResource =
  IPAM :: IPAM

text \<open>Reading a Go \<^verbatim>\<open>map[string]string\<close>: a missing key reads as the empty string.\<close>

definition label :: "(string \<times> string) list \<Rightarrow> string \<Rightarrow> string" where
  "label labels key = (case map_of labels key of None \<Rightarrow> [] | Some v \<Rightarrow> v)"

subsection \<open>Archives\<close>

text \<open>
  What \<^verbatim>\<open>WriteNodeState\<close> puts into its buffer with \<^verbatim>\<open>tar.Writer\<close>: one header and its
  bytes per entry (\<^verbatim>\<open>Size\<close> is the length of \<open>Data\<close>).
\<close>

record TarEntry =
  Name :: string
  Data :: string

text \<open>
  What \<^verbatim>\<open>tar.Reader\<close> yields on the stream \<^verbatim>\<open>CopyFromContainer\<close> returns: \<open>File name body\<close>
  is a header returned by \<^verbatim>\<open>Next\<close>, with what \<^verbatim>\<open>io.ReadAll\<close> gives for its body;
  \<open>Broken err\<close> is \<^verbatim>\<open>Next\<close> failing with an error other than \<^verbatim>\<open>io.EOF\<close>; the end of the
  list is \<^verbatim>\<open>io.EOF\<close>.
\<close>

datatype tar_item = File string "error + string" | Broken error

subsection \<open>\<^verbatim>\<open>encoding/json\<close>\<close>

text \<open>
  What a byte string is to \<^verbatim>\<open>json.Unmarshal\<close> with a \<^verbatim>\<open>**DockerNodeStateJson\<close> target:
  not decodable (a syntax error, a value that is no object, an \<^verbatim>\<open>Expiry\<close> that is no
  RFC 3339 string), the literal \<^verbatim>\<open>null\<close>, or an object, with the time of its \<^verbatim>\<open>Expiry\<close>
  key when it has one that is not \<^verbatim>\<open>null\<close>.
\<close>

datatype json_doc = JInvalid error | JNull | JObject "Time option"

text \<open>
  The byte-level codec is a parameter: \<open>Marshal\<close> is \<^verbatim>\<open>json.Marshal\<close> on a
  \<^verbatim>\<open>*DockerNodeStateJson\<close>, \<open>Parse\<close> reads bytes as above.
\<close>

record JsonLib =
  Marshal :: "DockerNodeStateJson \<Rightarrow> error + string"
  Parse :: "string \<Rightarrow> json_doc"

text \<open>
  \<^verbatim>\<open>json.Unmarshal(data, &p)\<close> for \<^verbatim>\<open>p *DockerNodeStateJson\<close>, as the package documents it:
  \<^verbatim>\<open>null\<close> sets \<^verbatim>\<open>p\<close> to nil; otherwise a nil \<^verbatim>\<open>p\<close> is allocated (zero value) and the
  object's keys are stored into the struct \<^verbatim>\<open>p\<close> points to, a field without a key
  keeping the value it had. The result is the new value of \<^verbatim>\<open>p\<close>.
\<close>

definition json_Unmarshal ::
  "JsonLib \<Rightarrow> string \<Rightarrow> DockerNodeStateJson option \<Rightarrow> error + DockerNodeStateJson option" where
  "json_Unmarshal js data p =
     (case Parse js data of
        JInvalid err \<Rightarrow> Inl err
      | JNull \<Rightarrow> Inr None
      | JObject (Some t) \<Rightarrow> Inr (Some \<lparr>DockerNodeStateJson.Expiry = t\<rparr>)
      | JObject None \<Rightarrow>
          Inr (Some (case p of None \<Rightarrow> \<lparr>DockerNodeStateJson.Expiry = 0\<rparr> | Some old \<Rightarrow> old)))"

subsection \<open>The backend\<close>

text \<open>
  The calls the controller makes on \<^verbatim>\<open>c.DockerCli\<close>, over a state \<open>'w\<close> of the world each
  call may change. \<open>ExecAndPipe\<close> is \<^verbatim>\<open>dockerExecAndPipe\<close>, a function of this package whose
  file is not among the sources: it runs a command inside a container and returns an
  error when that fails.
\<close>

record 'w DockerCli =
  ContainerList :: "'w \<Rightarrow> (error + Container list) \<times> 'w"
  CopyToContainer :: "string \<Rightarrow> string \<Rightarrow> TarEntry list \<Rightarrow> 'w \<Rightarrow> error option \<times> 'w"
  CopyFromContainer :: "string \<Rightarrow> string \<Rightarrow> 'w \<Rightarrow> (error + tar_item list) \<times> 'w"
  ContainerStop :: "string \<Rightarrow> 'w \<Rightarrow> error option \<times> 'w"
  ContainerRemove :: "string \<Rightarrow> 'w \<Rightarrow> error option \<times> 'w"
  NetworkInspect :: "string \<Rightarrow> 'w \<Rightarrow> (error + NetworkResource) \<times> 'w"
  ExecAndPipe :: "string \<Rightarrow> string list \<Rightarrow> 'w \<Rightarrow> error option \<times> 'w"

text \<open>The \<^verbatim>\<open>Controller\<close> struct without its logger, with the JSON codec it links against.\<close>

record 'w Controller =
  DockerCli :: "'w DockerCli"
  NetworkName :: string
  Json :: JsonLib

section \<open>The controller (controller.go)\<close>

definition parseContainerInfo :: "Container \<Rightarrow> NodeInfo option outcome" where
  "parseContainerInfo container =
     (let clusterID = label (Labels container) ''com.couchbase.dyncluster.cluster_id'';
          nodeID = label (Labels container) ''com.couchbase.dyncluster.node_id'';
          nodeName = label (Labels container) ''com.couchbase.dyncluster.node_name'';
          creator = label (Labels container) ''com.couchbase.dyncluster.creator'';
          purpose = label (Labels container) ''com.couchbase.dyncluster.purpose'';
          initialServerVersion =
            label (Labels container) ''com.couchbase.dyncluster.initial_server_version''
      in
      if clusterID = [] then Returned None
      else
        (case NetworkSettings container of
           None \<Rightarrow> NilPanic
         | Some settings \<Rightarrow>
             (let pickedNetwork = fold (\<lambda>(name, network) picked. network) (Networks settings) None
              in
              case pickedNetwork of
                None \<Rightarrow> NilPanic
              | Some endpoint \<Rightarrow>
                  Returned (Some
                    \<lparr>ContainerID = ID container,
                     NodeID = nodeID,
                     ClusterID = clusterID,
                     NodeInfo.Name = nodeName,
                     Creator = creator,
                     Owner = [],
                     Purpose = purpose,
                     NodeInfo.Expiry = 0,
                     NodeInfo.IPAddress = EndpointSettings.IPAddress endpoint,
                     InitialServerVersion = initialServerVersion\<rparr>))))"

text \<open>The loop of \<^verbatim>\<open>ReadNodeState\<close> over the archive, with \<^verbatim>\<open>nodeStateJson\<close> as accumulator.\<close>

fun ReadNodeState_entries ::
  "JsonLib \<Rightarrow> tar_item list \<Rightarrow> DockerNodeStateJson option \<Rightarrow> error + DockerNodeStateJson option" where
  "ReadNodeState_entries js [] nodeStateJson = Inr nodeStateJson"
| "ReadNodeState_entries js (Broken err # rest) nodeStateJson =
     Inl (Wrap err ''failed to read dyncluster node state file'')"
| "ReadNodeState_entries js (File name body # rest) nodeStateJson =
     (if name \<noteq> ''cbdyncluster/state'' then ReadNodeState_entries js rest nodeStateJson
      else
        (case body of
           Inl err \<Rightarrow> Inl (Wrap err ''failed to read dyncluster node state data'')
         | Inr stateBytes \<Rightarrow>
             (case json_Unmarshal js stateBytes nodeStateJson of
                Inl err \<Rightarrow> Inl (Wrap err ''failed to parse dyncluster node state data'')
              | Inr decoded \<Rightarrow> ReadNodeState_entries js rest decoded)))"

definition ReadNodeState ::
  "'w Controller \<Rightarrow> string \<Rightarrow> 'w \<Rightarrow> (error + DockerNodeState option) \<times> 'w" where
  "ReadNodeState c containerID w =
     (case CopyFromContainer (DockerCli c) containerID ''/var/cbdyncluster'' w of
        (Inl err, w') \<Rightarrow> (Inl (Wrap err ''failed to read dyncluster node state''), w')
      | (Inr resp, w') \<Rightarrow>
          (case ReadNodeState_entries (Json c) resp None of
             Inl err \<Rightarrow> (Inl err, w')
           | Inr None \<Rightarrow> (Inr None, w')
           | Inr (Some nodeStateJson) \<Rightarrow>
               (Inr (Some \<lparr>DockerNodeState.Expiry = DockerNodeStateJson.Expiry nodeStateJson\<rparr>),
                w')))"


text \<open>The loop of \<^verbatim>\<open>ListNodes\<close> over the containers, with \<^verbatim>\<open>nodes\<close> as accumulator.\<close>

fun ListNodes_containers ::
  "'w Controller \<Rightarrow> Container list \<Rightarrow> NodeInfo list \<Rightarrow> 'w \<Rightarrow> NodeInfo list outcome \<times> 'w" where
  "ListNodes_containers c [] nodes w = (Returned nodes, w)"
| "ListNodes_containers c (container # rest) nodes w =
     (case parseContainerInfo container of
        NilPanic \<Rightarrow> (NilPanic, w)
      | OutOfFuel \<Rightarrow> (OutOfFuel, w)
      | Returned None \<Rightarrow> ListNodes_containers c rest nodes w
      | Returned (Some node) \<Rightarrow>
          (case ReadNodeState c (ContainerID node) w of
             (Inr (Some nodeState), w') \<Rightarrow>
               ListNodes_containers c rest
                 (nodes @ [node\<lparr>NodeInfo.Expiry := DockerNodeState.Expiry nodeState\<rparr>]) w'
           | (other, w') \<Rightarrow> ListNodes_containers c rest (nodes @ [node]) w'))"

definition ListNodes :: "'w Controller \<Rightarrow> 'w \<Rightarrow> (error + NodeInfo list) outcome \<times> 'w" where
  "ListNodes c w =
     (case ContainerList (DockerCli c) w of
        (Inl err, w') \<Rightarrow> (Returned (Inl (Wrap err ''failed to list containers'')), w')
      | (Inr containers, w') \<Rightarrow>
          (case ListNodes_containers c containers [] w' of
             (Returned nodes, w'') \<Rightarrow> (Returned (Inr nodes), w'')
           | (NilPanic, w'') \<Rightarrow> (NilPanic, w'')
           | (OutOfFuel, w'') \<Rightarrow> (OutOfFuel, w'')))"

text \<open>
  The waiting loop of \<^verbatim>\<open>RemoveNode\<close>. The source loops without a bound; the first
  argument is the number of listings the model may take before it gives up with
  \<open>OutOfFuel\<close>. \<^verbatim>\<open>time.Sleep\<close> changes nothing the model holds.
\<close>

fun RemoveNode_wait ::
  "nat \<Rightarrow> 'w Controller \<Rightarrow> string \<Rightarrow> 'w \<Rightarrow> error option outcome \<times> 'w" where
  "RemoveNode_wait 0 c containerID w = (OutOfFuel, w)"
| "RemoveNode_wait (Suc fuel) c containerID w =
     (case ListNodes c w of
        (Returned (Inl err), w') \<Rightarrow> (Returned (Some (Wrap err ''failed to list nodes'')), w')
      | (Returned (Inr nodes), w') \<Rightarrow>
          (let foundNode = list_ex (\<lambda>node. ContainerID node = containerID) nodes in
           if foundNode then RemoveNode_wait fuel c containerID w'
           else (Returned None, w'))
      | (NilPanic, w') \<Rightarrow> (NilPanic, w')
      | (OutOfFuel, w') \<Rightarrow> (OutOfFuel, w'))"

definition RemoveNode ::
  "nat \<Rightarrow> 'w Controller \<Rightarrow> string \<Rightarrow> 'w \<Rightarrow> error option outcome \<times> 'w" where
  "RemoveNode fuel c containerID w =
     (case ContainerStop (DockerCli c) containerID w of
        (Some err, w1) \<Rightarrow> (Returned (Some (Wrap err ''failed to stop container'')), w1)
      | (None, w1) \<Rightarrow>
          (let (ignored, w2) = ContainerRemove (DockerCli c) containerID w1 in
           RemoveNode_wait fuel c containerID w2))"

definition execCmd :: "'w Controller \<Rightarrow> string \<Rightarrow> string list \<Rightarrow> 'w \<Rightarrow> error option \<times> 'w" where
  "execCmd c containerID cmd w = ExecAndPipe (DockerCli c) containerID cmd w"

definition execIptables ::
  "'w Controller \<Rightarrow> string \<Rightarrow> string list \<Rightarrow> 'w \<Rightarrow> error option \<times> 'w" where
  "execIptables c containerID args w =
     (case execCmd c containerID ([''iptables''] @ args) w of
        (None, w1) \<Rightarrow> (None, w1)
      | (Some err, w1) \<Rightarrow>
          (case execCmd c containerID [''apt-get'', ''update''] w1 of
             (Some err, w2) \<Rightarrow> (Some (Wrap err ''failed to update apt''), w2)
           | (None, w2) \<Rightarrow>
               (case execCmd c containerID [''apt-get'', ''-y'', ''install'', ''iptables''] w2 of
                  (Some err, w3) \<Rightarrow> (Some (Wrap err ''failed to install iptables''), w3)
                | (None, w3) \<Rightarrow>
                    (case execCmd c containerID ([''iptables''] @ args) w3 of
                       (Some err, w4) \<Rightarrow>
                         (Some (Wrap err ''failed to execute iptables command''), w4)
                     | (None, w4) \<Rightarrow> (None, w4)))))"

definition SetTrafficControl ::
  "'w Controller \<Rightarrow> string \<Rightarrow> bool \<Rightarrow> 'w \<Rightarrow> error option \<times> 'w" where
  "SetTrafficControl c containerID blocked w =
     (case NetworkInspect (DockerCli c) (NetworkName c) w of
        (Inl err, w1) \<Rightarrow> (Some (Wrap err ''failed to inspect network''), w1)
      | (Inr netInfo, w1) \<Rightarrow>
          if length (Config (IPAM netInfo)) < 1 then
            (Some (New ''more than one ipam config, cannot identify node subnet''), w1)
          else
            (let ipamConfig = Config (IPAM netInfo) ! 0;
                 gatewayIP = Gateway ipamConfig;
                 ipRange = (if IPRange ipamConfig \<noteq> [] then IPRange ipamConfig
                            else Subnet ipamConfig)
             in
             if ipRange = [] \<or> gatewayIP = [] then
               (Some (New ''failed to identify subnet or gateway ip''), w1)
             else
               (case execIptables c containerID [''-F''] w1 of
                  (Some err, w2) \<Rightarrow> (Some (Wrap err ''failed to clear iptables''), w2)
                | (None, w2) \<Rightarrow>
                    (case
                       (if blocked then
                          (case execIptables c containerID
                                  [''-I'', ''INPUT'', ''-s'', ipRange, ''-j'', ''DROP''] w2 of
                             (Some err, w3) \<Rightarrow>
                               (Some (Wrap err ''failed to create iptables rule''), w3)
                           | (None, w3) \<Rightarrow>
                               (case execIptables c containerID
                                       [''-I'', ''INPUT'', ''-s'', gatewayIP, ''-j'', ''ACCEPT''] w3 of
                                  (Some err, w4) \<Rightarrow>
                                    (Some (Wrap err ''failed to create iptables rule''), w4)
                                | (None, w4) \<Rightarrow> (None, w4)))
                        else (None, w2))
                     of
                       (Some err, w5) \<Rightarrow> (Some err, w5)
                     | (None, w5) \<Rightarrow>
                         (let (ignored, w6) = execIptables c containerID [''-S''] w5
                          in (None, w6))))))"

section \<open>Backends to run the controller on\<close>

subsection \<open>A backend that replays replies and records commands\<close>

text \<open>
  \<open>ExecAndPipe\<close> answers with the next reply of a list (success once the list is used up)
  and appends the command to a log; \<open>CopyFromContainer\<close> and \<open>NetworkInspect\<close> answer with
  a fixed archive and a fixed network. The controller is deterministic, so the replies
  stand for everything a backend can answer to these calls. The other calls are not
  used with it.
\<close>

record Replay =
  replies :: "error option list"
  commands :: "(string \<times> string list) list"
  archive :: "error + tar_item list"
  network :: "error + NetworkResource"

definition replay_exec :: "string \<Rightarrow> string list \<Rightarrow> Replay \<Rightarrow> error option \<times> Replay" where
  "replay_exec containerID cmd w =
     (case replies w of
        [] \<Rightarrow> (None, w\<lparr>commands := commands w @ [(containerID, cmd)]\<rparr>)
      | r # rs \<Rightarrow> (r, w\<lparr>replies := rs, commands := commands w @ [(containerID, cmd)]\<rparr>))"

definition replayCli :: "Replay DockerCli" where
  "replayCli =
     \<lparr>ContainerList = (\<lambda>w. (Inl (Lib ''unused''), w)),
      CopyToContainer = (\<lambda>containerID dst content w. (Some (Lib ''unused''), w)),
      CopyFromContainer = (\<lambda>containerID src w. (archive w, w)),
      ContainerStop = (\<lambda>containerID w. (Some (Lib ''unused''), w)),
      ContainerRemove = (\<lambda>containerID w. (Some (Lib ''unused''), w)),
      NetworkInspect = (\<lambda>name w. (network w, w)),
      ExecAndPipe = replay_exec\<rparr>"

subsection \<open>A small Docker daemon\<close>

text \<open>
  A model of the daemon behind the client, after the Docker Engine API: containers with
  a file system, a packet filter and a life cycle, and named networks. It is what the
  examples run on, and it fixes what "the same resource", "never written" and "already
  gone" mean for the claims that speak of them.
\<close>

datatype fsnode = Dir | Reg string

text \<open>\<open>Removing n\<close>: removal was accepted; the container is still listed \<open>n\<close> more times.\<close>

datatype sim_status = Running | Exited | Removing nat

record SimContainer =
  summary :: Container
  status :: sim_status
  files :: "(string \<times> fsnode) list"
  iptables_installed :: bool
  INPUT :: "(string \<times> string) list"

record SimDocker =
  containers :: "SimContainer list"
  networks :: "(string \<times> NetworkResource) list"
  teardown :: nat

definition is_removing :: "SimContainer \<Rightarrow> bool" where
  "is_removing c = (case status c of Removing n \<Rightarrow> True | Running \<Rightarrow> False | Exited \<Rightarrow> False)"

definition sim_lookup :: "string \<Rightarrow> SimDocker \<Rightarrow> SimContainer option" where
  "sim_lookup containerID w =
     find (\<lambda>c. ID (summary c) = containerID \<and> \<not> is_removing c) (containers w)"

definition sim_update :: "string \<Rightarrow> (SimContainer \<Rightarrow> SimContainer) \<Rightarrow> SimDocker \<Rightarrow> SimDocker" where
  "sim_update containerID f w =
     w\<lparr>containers :=
         map (\<lambda>c. if ID (summary c) = containerID \<and> \<not> is_removing c then f c else c)
           (containers w)\<rparr>"

text \<open>
  \<^verbatim>\<open>GET /containers/json?all=true\<close>: every container, whatever its state. A container
  under removal is listed until its teardown is over.
\<close>

definition sim_ContainerList :: "SimDocker \<Rightarrow> (error + Container list) \<times> SimDocker" where
  "sim_ContainerList w =
     (let listed = filter (\<lambda>c. status c \<noteq> Removing 0) (containers w);
          aged = map (\<lambda>c. case status c of
                             Removing n \<Rightarrow> c\<lparr>status := Removing (n - 1)\<rparr>
                           | Running \<Rightarrow> c
                           | Exited \<Rightarrow> c) listed
      in (Inr (map summary listed), w\<lparr>containers := aged\<rparr>))"

text \<open>Paths are absolute, with \<open>/\<close> between the names.\<close>

definition clean_path :: "string \<Rightarrow> string" where
  "clean_path p = (if 1 < length p \<and> last p = CHR ''/'' then butlast p else p)"

definition parent_dirs :: "string \<Rightarrow> string list" where
  "parent_dirs p = map (\<lambda>i. take i p) (filter (\<lambda>i. p ! i = CHR ''/'') [1..<length p])"

definition dir_name :: "string \<Rightarrow> string" where
  "dir_name p = rev (tl (dropWhile (\<lambda>ch. ch \<noteq> CHR ''/'') (rev p)))"

definition is_dir :: "(string \<times> fsnode) list \<Rightarrow> string \<Rightarrow> bool" where
  "is_dir fs p = (p = ''/'' \<or> map_of fs p = Some Dir)"

definition is_reg :: "(string \<times> fsnode) list \<Rightarrow> string \<Rightarrow> bool" where
  "is_reg fs p = (case map_of fs p of Some (Reg content) \<Rightarrow> True | Some Dir \<Rightarrow> False | None \<Rightarrow> False)"

text \<open>
  Unpacking one entry under a directory: the directories on the way are made when they
  are missing, an old file of the same path is replaced.
\<close>

definition extract_entry ::
  "string \<Rightarrow> TarEntry \<Rightarrow> (string \<times> fsnode) list \<Rightarrow> error + (string \<times> fsnode) list" where
  "extract_entry dst entry fs =
     (let p = (if dst = ''/'' then [] else dst) @ ''/'' @ Name entry;
          between = filter (\<lambda>d. length dst < length d) (parent_dirs p)
      in
      if list_ex (is_reg fs) between then Inl (Lib ''not a directory'')
      else if map_of fs p = Some Dir then Inl (Lib ''is a directory'')
      else
        Inr (filter (\<lambda>(q, n). q \<noteq> p)
               (fs @ map (\<lambda>d. (d, Dir)) (filter (\<lambda>d. map_of fs d = None) between))
             @ [(p, Reg (Data entry))]))"

fun extract_all ::
  "string \<Rightarrow> TarEntry list \<Rightarrow> (string \<times> fsnode) list \<Rightarrow> error + (string \<times> fsnode) list" where
  "extract_all dst [] fs = Inr fs"
| "extract_all dst (entry # rest) fs =
     (case extract_entry dst entry fs of
        Inl err \<Rightarrow> Inl err
      | Inr fs' \<Rightarrow> extract_all dst rest fs')"

text \<open>
  \<^verbatim>\<open>PUT /containers/{id}/archive\<close>: the archive is unpacked under a directory that must
  exist in the container.
\<close>

definition sim_CopyToContainer ::
  "string \<Rightarrow> string \<Rightarrow> TarEntry list \<Rightarrow> SimDocker \<Rightarrow> error option \<times> SimDocker" where
  "sim_CopyToContainer containerID dst content w =
     (case sim_lookup containerID w of
        None \<Rightarrow> (Some (Lib ''No such container''), w)
      | Some c \<Rightarrow>
          if \<not> is_dir (files c) (clean_path dst) then
            (Some (Lib ''destination directory does not exist''), w)
          else
            (case extract_all (clean_path dst) content (files c) of
               Inl err \<Rightarrow> (Some err, w)
             | Inr fs \<Rightarrow> (None, sim_update containerID (\<lambda>c. c\<lparr>files := fs\<rparr>) w)))"

text \<open>
  \<^verbatim>\<open>GET /containers/{id}/archive\<close>: an error when the container or the path does not
  exist; otherwise the path and all below it, named from the path's last name on, a
  directory with a closing \<open>/\<close>.
\<close>

definition archive_item :: "string \<Rightarrow> string \<times> fsnode \<Rightarrow> tar_item" where
  "archive_item p entry =
     (case entry of
        (q, Dir) \<Rightarrow> File (drop (length (dir_name p) + 1) q @ ''/'') (Inr [])
      | (q, Reg content) \<Rightarrow> File (drop (length (dir_name p) + 1) q) (Inr content))"

definition sim_CopyFromContainer ::
  "string \<Rightarrow> string \<Rightarrow> SimDocker \<Rightarrow> (error + tar_item list) \<times> SimDocker" where
  "sim_CopyFromContainer containerID src w =
     (case sim_lookup containerID w of
        None \<Rightarrow> (Inl (Lib ''No such container''), w)
      | Some c \<Rightarrow>
          (let p = clean_path src in
           if map_of (files c) p = None then
             (Inl (Lib ''Could not find the file in container''), w)
           else
             (Inr (map (archive_item p)
                     (filter (\<lambda>(q, n). q = p \<or> take (length p + 1) q = p @ ''/'') (files c))),
              w)))"

text \<open>
  \<^verbatim>\<open>POST /containers/{id}/stop\<close> succeeds on a container that is already stopped and
  fails on one that does not exist; \<^verbatim>\<open>DELETE /containers/{id}\<close> refuses a running
  container.
\<close>

definition sim_ContainerStop :: "string \<Rightarrow> SimDocker \<Rightarrow> error option \<times> SimDocker" where
  "sim_ContainerStop containerID w =
     (case sim_lookup containerID w of
        None \<Rightarrow> (Some (Lib ''No such container''), w)
      | Some c \<Rightarrow> (None, sim_update containerID (\<lambda>c. c\<lparr>status := Exited\<rparr>) w))"

definition sim_ContainerRemove :: "string \<Rightarrow> SimDocker \<Rightarrow> error option \<times> SimDocker" where
  "sim_ContainerRemove containerID w =
     (case sim_lookup containerID w of
        None \<Rightarrow> (Some (Lib ''No such container''), w)
      | Some c \<Rightarrow>
          if status c = Running then (Some (Lib ''cannot remove a running container''), w)
          else (None, sim_update containerID (\<lambda>c. c\<lparr>status := Removing (teardown w)\<rparr>) w))"

definition sim_NetworkInspect ::
  "string \<Rightarrow> SimDocker \<Rightarrow> (error + NetworkResource) \<times> SimDocker" where
  "sim_NetworkInspect name w =
     (case map_of (networks w) name of
        None \<Rightarrow> (Inl (Lib ''network not found''), w)
      | Some net \<Rightarrow> (Inr net, w))"

text \<open>
  The packet filter: \<open>INPUT\<close> is the chain, first rule first, each rule a source and a
  target. \<^verbatim>\<open>-F\<close> empties it, \<^verbatim>\<open>-I INPUT -s src -j target\<close> puts a rule at its head,
  \<^verbatim>\<open>-S\<close> prints it.
\<close>

definition run_iptables :: "string list \<Rightarrow> SimContainer \<Rightarrow> SimContainer option" where
  "run_iptables args c =
     (if args = [''-F''] then Some (c\<lparr>INPUT := []\<rparr>)
      else if args = [''-S''] then Some c
      else
        (case args of
           [a1, a2, a3, src, a5, target] \<Rightarrow>
             if a1 = ''-I'' \<and> a2 = ''INPUT'' \<and> a3 = ''-s'' \<and> a5 = ''-j''
             then Some (c\<lparr>INPUT := (src, target) # INPUT c\<rparr>)
             else None
         | _ \<Rightarrow> None))"

definition run_command :: "string list \<Rightarrow> SimContainer \<Rightarrow> SimContainer option" where
  "run_command cmd c =
     (if cmd = [''apt-get'', ''update''] then Some c
      else if cmd = [''apt-get'', ''-y'', ''install'', ''iptables'']
        then Some (c\<lparr>iptables_installed := True\<rparr>)
      else
        (case cmd of
           [] \<Rightarrow> None
         | tool # args \<Rightarrow>
             if tool = ''iptables'' \<and> iptables_installed c then run_iptables args c
             else None))"

definition sim_exec :: "string \<Rightarrow> string list \<Rightarrow> SimDocker \<Rightarrow> error option \<times> SimDocker" where
  "sim_exec containerID cmd w =
     (case sim_lookup containerID w of
        None \<Rightarrow> (Some (Lib ''No such container''), w)
      | Some c \<Rightarrow>
          if status c \<noteq> Running then (Some (Lib ''container is not running''), w)
          else
            (case run_command cmd c of
               None \<Rightarrow> (Some (Lib ''command failed''), w)
             | Some c' \<Rightarrow> (None, sim_update containerID (\<lambda>c. c') w)))"

definition simCli :: "SimDocker DockerCli" where
  "simCli =
     \<lparr>ContainerList = sim_ContainerList,
      CopyToContainer = sim_CopyToContainer,
      CopyFromContainer = sim_CopyFromContainer,
      ContainerStop = sim_ContainerStop,
      ContainerRemove = sim_ContainerRemove,
      NetworkInspect = sim_NetworkInspect,
      ExecAndPipe = sim_exec\<rparr>"

text \<open>
  What the chain does to a packet: the target of the first rule whose source matches it,
  the chain's policy when none does. How a source (an address or a range) matches a
  packet is the argument \<open>matches\<close>.
\<close>

fun verdict :: "(string \<Rightarrow> 'p \<Rightarrow> bool) \<Rightarrow> string \<Rightarrow> (string \<times> string) list \<Rightarrow> 'p \<Rightarrow> string" where
  "verdict matches policy [] pkt = policy"
| "verdict matches policy ((src, target) # rules) pkt =
     (if matches src pkt then target else verdict matches policy rules pkt)"

section \<open>Notions the properties are stated with\<close>

text \<open>A container carries the cluster-identifier label when the label reads non-empty.\<close>

definition labelled :: "Container \<Rightarrow> bool" where
  "labelled container \<longleftrightarrow>
     label (Labels container) ''com.couchbase.dyncluster.cluster_id'' \<noteq> []"












text \<open>
  The daemon model while a removal is under way. \<open>aged w\<close> is the daemon after one
  listing. A container \<open>lingering\<close> under an identifier is one under removal that is listed
  at most \<open>k\<close> more times; the identifier is \<open>fading\<close> when every container that has it is
  so, and \<open>settled\<close> when the ones already under removal are, for the daemon's own
  teardown. The daemon is \<open>calm\<close> when no container in it makes \<^verbatim>\<open>parseContainerInfo\<close>
  panic. \<open>requested\<close> is what an accepted stop and an accepted removal make of a
  container.
\<close>

definition aged :: "SimDocker \<Rightarrow> SimDocker" where
  "aged w = snd (sim_ContainerList w)"

definition lingering :: "string \<Rightarrow> nat \<Rightarrow> SimContainer \<Rightarrow> bool" where
  "lingering containerID k ct \<longleftrightarrow>
     (ID (summary ct) = containerID \<longrightarrow>
        (case status ct of Removing n \<Rightarrow> n \<le> k | Running \<Rightarrow> False | Exited \<Rightarrow> False))"

definition fading :: "string \<Rightarrow> nat \<Rightarrow> SimDocker \<Rightarrow> bool" where
  "fading containerID k w \<longleftrightarrow> list_all (lingering containerID k) (containers w)"

definition settled :: "string \<Rightarrow> SimDocker \<Rightarrow> bool" where
  "settled containerID w \<longleftrightarrow>
     list_all (\<lambda>ct. is_removing ct \<longrightarrow> lingering containerID (teardown w) ct) (containers w)"

definition calm :: "SimDocker \<Rightarrow> bool" where
  "calm w \<longleftrightarrow> list_all (\<lambda>ct. parseContainerInfo (summary ct) \<noteq> NilPanic) (containers w)"

definition requested :: "string \<Rightarrow> nat \<Rightarrow> SimContainer \<Rightarrow> SimContainer" where
  "requested containerID k ct =
     (let ct1 = (if ID (summary ct) = containerID \<and> \<not> is_removing ct
                 then ct\<lparr>status := Exited\<rparr> else ct)
      in if ID (summary ct1) = containerID \<and> \<not> is_removing ct1
         then ct1\<lparr>status := Removing k\<rparr> else ct1)"

section \<open>Sample data\<close>

text \<open>
  A finite sample of the JSON codec, enough to run the examples: the encodings of two
  instants (the zero time, and 2024-06-01T00:00:00Z counted from it), \<^verbatim>\<open>null\<close>, the empty
  object, and one byte string that is not JSON. Everything else is outside the sample
  and answered with an error.
\<close>

definition sample_time :: Time where
  "sample_time = 63852796800000000000"

definition sample_json :: JsonLib where
  "sample_json =
     \<lparr>Marshal = (\<lambda>s.
        if DockerNodeStateJson.Expiry s = 0 then Inr ''{\"Expiry\":\"0001-01-01T00:00:00Z\"}''
        else if DockerNodeStateJson.Expiry s = sample_time
          then Inr ''{\"Expiry\":\"2024-06-01T00:00:00Z\"}''
        else Inl (Lib ''outside the sample'')),
      Parse = (\<lambda>data.
        if data = ''{\"Expiry\":\"0001-01-01T00:00:00Z\"}'' then JObject (Some 0)
        else if data = ''{\"Expiry\":\"2024-06-01T00:00:00Z\"}'' then JObject (Some sample_time)
        else if data = ''null'' then JNull
        else if data = ''{}'' then JObject None
        else if data = ''not json'' then JInvalid (Lib ''invalid character'')
        else JInvalid (Lib ''outside the sample''))\<rparr>"

definition sample_node :: SimContainer where
  "sample_node =
     \<lparr>summary =
        \<lparr>ID = ''c1'',
         Labels = [(''com.couchbase.dyncluster.cluster_id'', ''cluster-a''),
                   (''com.couchbase.dyncluster.node_id'', ''node-1''),
                   (''com.couchbase.dyncluster.purpose'', ''test'')],
         NetworkSettings =
           Some \<lparr>Networks = [(''dinonet'', Some \<lparr>IPAddress = ''172.18.0.2''\<rparr>)]\<rparr>\<rparr>,
      status = Running,
      files = [(''/var'', Dir)],
      iptables_installed = False,
      INPUT = []\<rparr>"

text \<open>A container that is not ours: it has no labels.\<close>

definition sample_stray :: SimContainer where
  "sample_stray =
     \<lparr>summary =
        \<lparr>ID = ''c2'',
         Labels = [],
         NetworkSettings =
           Some \<lparr>Networks = [(''bridge'', Some \<lparr>IPAddress = ''172.17.0.5''\<rparr>)]\<rparr>\<rparr>,
      status = Running,
      files = [(''/var'', Dir)],
      iptables_installed = False,
      INPUT = []\<rparr>"

text \<open>A labelled container that is attached to no network.\<close>

definition sample_detached :: Container where
  "sample_detached =
     \<lparr>ID = ''c3'',
      Labels = [(''com.couchbase.dyncluster.cluster_id'', ''cluster-a'')],
      NetworkSettings = Some \<lparr>Networks = []\<rparr>\<rparr>"

definition sample_network :: NetworkResource where
  "sample_network =
     \<lparr>IPAM = \<lparr>Config =
        [\<lparr>Subnet = ''172.18.0.0/16'', IPRange = [], Gateway = ''172.18.0.1''\<rparr>]\<rparr>\<rparr>"

definition sample_world :: SimDocker where
  "sample_world =
     \<lparr>containers = [sample_node, sample_stray],
      networks = [(''dinonet'', sample_network)],
      teardown = 1\<rparr>"

definition sample_controller :: "SimDocker Controller" where
  "sample_controller = \<lparr>DockerCli = simCli, NetworkName = ''dinonet'', Json = sample_json\<rparr>"

text \<open>What \<^verbatim>\<open>ListNodes\<close> reports for \<open>sample_node\<close> while no state has been written.\<close>

definition sample_node_info :: NodeInfo where
  "sample_node_info =
     \<lparr>ContainerID = ''c1'',
      NodeID = ''node-1'',
      ClusterID = ''cluster-a'',
      NodeInfo.Name = [],
      Creator = [],
      Owner = [],
      Purpose = ''test'',
      NodeInfo.Expiry = 0,
      NodeInfo.IPAddress = ''172.18.0.2'',
      InitialServerVersion = []\<rparr>"

text \<open>The sample world with the detached container listed after the node.\<close>

definition detached_world :: SimDocker where
  "detached_world =
     \<lparr>containers =
        [sample_node,
         \<lparr>summary = sample_detached, status = Running, files = [(''/var'', Dir)],
          iptables_installed = False, INPUT = []\<rparr>],
      networks = [(''dinonet'', sample_network)],
      teardown = 1\<rparr>"

text \<open>The replaying backend, its controller and its initial worlds.\<close>

definition replay_controller :: "Replay Controller" where
  "replay_controller = \<lparr>DockerCli = replayCli, NetworkName = ''dinonet'', Json = sample_json\<rparr>"

definition replay_world :: "error option list \<Rightarrow> Replay" where
  "replay_world rs =
     \<lparr>replies = rs, commands = [], archive = Inl (Lib ''unused''),
      network = Inl (Lib ''unused'')\<rparr>"


definition replay_network :: "NetworkResource \<Rightarrow> Replay" where
  "replay_network net = (replay_world [])\<lparr>network := Inr net\<rparr>"

text \<open>
  The commands \<^verbatim>\<open>execIptables\<close> can issue for one rule application, in order: the
  attempt, the two steps of the installation, the second attempt.
\<close>

definition remediation :: "string \<Rightarrow> string list \<Rightarrow> (string \<times> string list) list" where
  "remediation containerID args =
     [(containerID, ''iptables'' # args),
      (containerID, [''apt-get'', ''update'']),
      (containerID, [''apt-get'', ''-y'', ''install'', ''iptables'']),
      (containerID, ''iptables'' # args)]"

text \<open>
  A dual-stack network, with one addressing block per address family, and a network
  without any block.
\<close>

definition two_block_world :: SimDocker where
  "two_block_world =
     sample_world\<lparr>networks :=
       [(''dinonet'',
         \<lparr>IPAM = \<lparr>Config =
            [\<lparr>Subnet = ''172.18.0.0/16'', IPRange = [], Gateway = ''172.18.0.1''\<rparr>,
             \<lparr>Subnet = ''fd00::/64'', IPRange = [], Gateway = ''fd00::1''\<rparr>]\<rparr>\<rparr>)]\<rparr>"

definition no_block_world :: SimDocker where
  "no_block_world = sample_world\<lparr>networks := [(''dinonet'', \<lparr>IPAM = \<lparr>Config = []\<rparr>\<rparr>)]\<rparr>"

text \<open>A source matches an address when it is that address or the sample range holds it.\<close>

definition sample_matches :: "string \<Rightarrow> string \<Rightarrow> bool" where
  "sample_matches src addr \<longleftrightarrow>
     src = addr \<or> (src = ''172.18.0.0/16'' \<and> take 7 addr = ''172.18.'')"

text \<open>The sample world after the node is gone.\<close>

definition gone_world :: SimDocker where
  "gone_world = sample_world\<lparr>containers := [sample_stray]\<rparr>"




definition image_enterprise :: ImageDef where
  "image_enterprise =
     \<lparr>Version = ''7.1.0'', BuildNo = 1, UseCommunityEdition = False,
      UseServerless = False, UseColumnar = False\<rparr>"

section \<open>Properties of the image ordering\<close>













subsection \<open>The library comparison is a three-way comparison\<close>




























text \<open>
  Descriptors that differ can compare equal: the library takes \<^verbatim>\<open>7.1\<close> for \<^verbatim>\<open>7.1.0\<close>, and
  any two strings that are no versions for equal.
\<close>

lemma CompareImageDefs_equal_not_same:
  "CompareImageDefs semver_Compare (image_enterprise\<lparr>Version := ''7.1''\<rparr>) image_enterprise = 0"
  "CompareImageDefs semver_Compare (image_enterprise\<lparr>Version := ''latest''\<rparr>)
     (image_enterprise\<lparr>Version := ''nightly''\<rparr>) = 0"
  by code_simp+

section \<open>Properties of \<^verbatim>\<open>parseContainerInfo\<close> and \<^verbatim>\<open>ListNodes\<close>\<close>

lemma fold_pick:
  "fold (\<lambda>(name, network) picked. network) nets init =
     (if nets = [] then init else snd (last nets))"
  by (induction nets arbitrary: init) (auto split: prod.splits)

lemma parseContainerInfo_unlabelled:
  "\<not> labelled container \<Longrightarrow> parseContainerInfo container = Returned None"
  by (simp add: parseContainerInfo_def labelled_def)

lemma parseContainerInfo_labelled:
  assumes "labelled container"
  shows "parseContainerInfo container =
     (case NetworkSettings container of
        None \<Rightarrow> NilPanic
      | Some settings \<Rightarrow>
          if Networks settings = [] then NilPanic
          else
            (case snd (last (Networks settings)) of
               None \<Rightarrow> NilPanic
             | Some endpoint \<Rightarrow>
                 Returned (Some
                   \<lparr>ContainerID = ID container,
                    NodeID = label (Labels container) ''com.couchbase.dyncluster.node_id'',
                    ClusterID = label (Labels container) ''com.couchbase.dyncluster.cluster_id'',
                    NodeInfo.Name = label (Labels container) ''com.couchbase.dyncluster.node_name'',
                    Creator = label (Labels container) ''com.couchbase.dyncluster.creator'',
                    Owner = [],
                    Purpose = label (Labels container) ''com.couchbase.dyncluster.purpose'',
                    NodeInfo.Expiry = 0,
                    NodeInfo.IPAddress = EndpointSettings.IPAddress endpoint,
                    InitialServerVersion =
                      label (Labels container)
                        ''com.couchbase.dyncluster.initial_server_version''\<rparr>)))"
  using assms
  by (simp add: parseContainerInfo_def labelled_def fold_pick Let_def split: option.splits)

lemma parseContainerInfo_fuel: "parseContainerInfo container \<noteq> OutOfFuel"
  by (simp add: parseContainerInfo_def fold_pick Let_def split: option.splits)

lemma parseContainerInfo_None:
  assumes "parseContainerInfo container = Returned None"
  shows "\<not> labelled container"
proof
  assume l: "labelled container"
  show False using assms unfolding parseContainerInfo_labelled [OF l]
    by (simp split: option.splits if_splits)
qed

lemma parseContainerInfo_Some:
  assumes "parseContainerInfo container = Returned (Some node)"
  shows "labelled container"
    and "ClusterID node = label (Labels container) ''com.couchbase.dyncluster.cluster_id''"
    and "ContainerID node = ID container"
proof -
  show l: "labelled container"
    using assms parseContainerInfo_unlabelled [of container] by auto
  have "ClusterID node = label (Labels container) ''com.couchbase.dyncluster.cluster_id'' \<and>
        ContainerID node = ID container"
    using assms unfolding parseContainerInfo_labelled [OF l]
    by (auto split: option.splits if_splits)
  then show "ClusterID node = label (Labels container) ''com.couchbase.dyncluster.cluster_id''"
    and "ContainerID node = ID container"
    by simp_all
qed

lemma ListNodes_containers_panic:
  assumes "\<exists>container \<in> set cs. parseContainerInfo container = NilPanic"
  shows "fst (ListNodes_containers c cs nodes w) = NilPanic"
  using assms
proof (induction cs arbitrary: nodes w)
  case Nil
  then show ?case by simp
next
  case (Cons container rest)
  show ?case
  proof (cases "parseContainerInfo container")
    case (Returned r)
    then have rest: "\<exists>container \<in> set rest. parseContainerInfo container = NilPanic"
      using Cons.prems by auto
    show ?thesis
    proof (cases r)
      case None
      then show ?thesis using Returned Cons.IH [OF rest] by simp
    next
      case (Some node)
      obtain res w' where rn: "ReadNodeState c (ContainerID node) w = (res, w')"
        by (cases "ReadNodeState c (ContainerID node) w")
      show ?thesis using Returned Some rn Cons.IH [OF rest]
        by (simp split: sum.splits option.splits)
    qed
  next
    case NilPanic
    then show ?thesis by simp
  next
    case OutOfFuel
    then show ?thesis using parseContainerInfo_fuel by blast
  qed
qed

lemma ListNodes_panic:
  assumes "fst (ContainerList (DockerCli c) w) = Inr cs"
    and "\<exists>container \<in> set cs. parseContainerInfo container = NilPanic"
  shows "fst (ListNodes c w) = NilPanic"
proof -
  obtain w1 where cl: "ContainerList (DockerCli c) w = (Inr cs, w1)"
    using assms(1) by (cases "ContainerList (DockerCli c) w") simp
  obtain r w2 where l: "ListNodes_containers c cs [] w1 = (r, w2)"
    by (cases "ListNodes_containers c cs [] w1")
  have "r = NilPanic" using ListNodes_containers_panic [OF assms(2), of c "[]" w1] l by simp
  then show ?thesis using cl l by (simp add: ListNodes_def)
qed

lemma ListNodes_containers_nodes:
  assumes "ListNodes_containers c cs nodes w = (Returned result, w')"
  shows "map ContainerID result = map ContainerID nodes @ map ID (filter labelled cs) \<and>
         map ClusterID result = map ClusterID nodes @
            map (\<lambda>container. label (Labels container) ''com.couchbase.dyncluster.cluster_id'')
              (filter labelled cs)"
  using assms
proof (induction cs arbitrary: nodes w)
  case Nil
  then show ?case by simp
next
  case (Cons container rest)
  show ?case
  proof (cases "parseContainerInfo container")
    case (Returned r)
    show ?thesis
    proof (cases r)
      case None
      then have "\<not> labelled container"
        using Returned parseContainerInfo_None [of container] by simp
      then show ?thesis using Returned None Cons.IH [of nodes w] Cons.prems by simp
    next
      case (Some node)
      have parsed: "parseContainerInfo container = Returned (Some node)"
        using Returned Some by simp
      have lab: "labelled container" by (rule parseContainerInfo_Some(1) [OF parsed])
      obtain res w1 where rn: "ReadNodeState c (ContainerID node) w = (res, w1)"
        by (cases "ReadNodeState c (ContainerID node) w")
      define node' where "node' = (case res of Inr (Some nodeState) \<Rightarrow>
           node\<lparr>NodeInfo.Expiry := DockerNodeState.Expiry nodeState\<rparr> | _ \<Rightarrow> node)"
      have step: "ListNodes_containers c (container # rest) nodes w =
                  ListNodes_containers c rest (nodes @ [node']) w1"
        using parsed rn by (simp add: node'_def split: sum.splits option.splits)
      have ids: "ContainerID node' = ID container \<and>
                 ClusterID node' = label (Labels container) ''com.couchbase.dyncluster.cluster_id''"
        using parseContainerInfo_Some(2,3) [OF parsed]
        by (simp add: node'_def split: sum.splits option.splits)
      show ?thesis
        using Cons.IH [of "nodes @ [node']" w1] Cons.prems lab ids unfolding step by simp
    qed
  next
    case NilPanic
    then show ?thesis using Cons.prems by simp
  next
    case OutOfFuel
    then show ?thesis using parseContainerInfo_fuel by blast
  qed
qed

text \<open>
  Claim C8. Whatever the backend lists, the nodes \<^verbatim>\<open>ListNodes\<close> returns are, in order,
  exactly the listed containers whose cluster-identifier label is present and not empty:
  each returned node has a non-empty cluster identifier, the one of its container, and a
  container without the label contributes no node.
\<close>

theorem ListNodes_only_labelled:
  assumes listed: "fst (ContainerList (DockerCli c) w) = Inr cs"
    and nodes: "fst (ListNodes c w) = Returned (Inr nodes)"
  shows "(\<forall>node \<in> set nodes. ClusterID node \<noteq> []) \<and>
         map ContainerID nodes = map ID (filter labelled cs) \<and>
         map ClusterID nodes =
           map (\<lambda>container. label (Labels container) ''com.couchbase.dyncluster.cluster_id'')
             (filter labelled cs)"
proof -
  obtain w1 where cl: "ContainerList (DockerCli c) w = (Inr cs, w1)"
    using listed by (cases "ContainerList (DockerCli c) w") simp
  obtain r w2 where l: "ListNodes_containers c cs [] w1 = (r, w2)"
    by (cases "ListNodes_containers c cs [] w1")
  have "r = Returned nodes"
    using nodes cl l by (cases r) (simp_all add: ListNodes_def)
  then have m: "map ContainerID nodes = map ID (filter labelled cs) \<and>
         map ClusterID nodes =
           map (\<lambda>container. label (Labels container) ''com.couchbase.dyncluster.cluster_id'')
             (filter labelled cs)"
    using ListNodes_containers_nodes [of c cs "[]" w1 nodes w2] l by simp
  have "\<forall>x \<in> set (map ClusterID nodes). x \<noteq> []"
    unfolding conjunct2 [OF m] by (auto simp: labelled_def)
  then have "\<forall>node \<in> set nodes. ClusterID node \<noteq> []" by simp
  with m show ?thesis by simp
qed

theorem ListNodes_only_labelled_witness:
  "fst (ContainerList (DockerCli sample_controller) sample_world)
     = Inr [summary sample_node, summary sample_stray] \<and>
   fst (ListNodes sample_controller sample_world) = Returned (Inr [sample_node_info]) \<and>
   ClusterID sample_node_info \<noteq> [] \<and>
   map ContainerID [sample_node_info]
     = map ID (filter labelled [summary sample_node, summary sample_stray]) \<and>
   \<not> labelled (summary sample_stray)"
proof -
  have h1: "fst (ContainerList (DockerCli sample_controller) sample_world)
     = Inr [summary sample_node, summary sample_stray]"
    by code_simp
  have h2: "fst (ListNodes sample_controller sample_world) = Returned (Inr [sample_node_info])"
    by code_simp
  have h3: "\<not> labelled (summary sample_stray)" by code_simp
  show ?thesis using ListNodes_only_labelled [OF h1 h2] h1 h2 h3 by simp
qed

text \<open>
  Claim C9. For a container that carries the cluster-identifier label,
  \<^verbatim>\<open>parseContainerInfo\<close> panics on a nil pointer exactly when no endpoint can be read: the
  network settings are missing, no network is attached, or the endpoint visited last is
  nil. Otherwise it returns a node whose address is the one of the endpoint visited
  last. So the call returns only if at least one network is attached, and with none
  attached it panics rather than returning; a listing that contains such a container
  makes \<^verbatim>\<open>ListNodes\<close> panic too, whatever the backend.
\<close>

theorem parseContainerInfo_needs_endpoint:
  assumes "labelled container"
  shows "(parseContainerInfo container = NilPanic \<longleftrightarrow>
            (case NetworkSettings container of
               None \<Rightarrow> True
             | Some settings \<Rightarrow>
                 Networks settings = [] \<or> snd (last (Networks settings)) = None)) \<and>
         (\<forall>settings endpoint.
            NetworkSettings container = Some settings \<and> Networks settings \<noteq> [] \<and>
            snd (last (Networks settings)) = Some endpoint \<longrightarrow>
            (\<exists>node. parseContainerInfo container = Returned (Some node) \<and>
                    NodeInfo.IPAddress node = EndpointSettings.IPAddress endpoint)) \<and>
         (\<forall>settings.
            NetworkSettings container = Some settings \<and> Networks settings = [] \<and>
            fst (ContainerList (DockerCli c) w) = Inr cs \<and> container \<in> set cs \<longrightarrow>
            fst (ListNodes c w) = NilPanic)"
proof (intro conjI allI impI)
  show "parseContainerInfo container = NilPanic \<longleftrightarrow>
            (case NetworkSettings container of
               None \<Rightarrow> True
             | Some settings \<Rightarrow>
                 Networks settings = [] \<or> snd (last (Networks settings)) = None)"
    unfolding parseContainerInfo_labelled [OF assms] by (simp split: option.splits)
next
  fix settings endpoint
  assume "NetworkSettings container = Some settings \<and> Networks settings \<noteq> [] \<and>
            snd (last (Networks settings)) = Some endpoint"
  then show "\<exists>node. parseContainerInfo container = Returned (Some node) \<and>
                    NodeInfo.IPAddress node = EndpointSettings.IPAddress endpoint"
    unfolding parseContainerInfo_labelled [OF assms] by simp
next
  fix settings
  assume a: "NetworkSettings container = Some settings \<and> Networks settings = [] \<and>
            fst (ContainerList (DockerCli c) w) = Inr cs \<and> container \<in> set cs"
  then have "parseContainerInfo container = NilPanic"
    unfolding parseContainerInfo_labelled [OF assms] by simp
  then show "fst (ListNodes c w) = NilPanic"
    using a ListNodes_panic [of c w cs] by blast
qed

theorem parseContainerInfo_needs_endpoint_witness:
  "labelled sample_detached \<and>
   parseContainerInfo sample_detached = NilPanic \<and>
   fst (ContainerList (DockerCli sample_controller) detached_world)
     = Inr [summary sample_node, sample_detached] \<and>
   fst (ListNodes sample_controller detached_world) = NilPanic"
proof -
  have h: "labelled sample_detached" by code_simp
  have n: "NetworkSettings sample_detached = Some \<lparr>Networks = []\<rparr>"
    by (simp add: sample_detached_def)
  have l: "fst (ContainerList (DockerCli sample_controller) detached_world)
     = Inr [summary sample_node, sample_detached]"
    by code_simp
  note t = parseContainerInfo_needs_endpoint
    [OF h, of sample_controller detached_world "[summary sample_node, sample_detached]"]
  have p: "parseContainerInfo sample_detached = NilPanic"
    using conjunct1 [OF t] n by simp
  have "fst (ListNodes sample_controller detached_world) = NilPanic"
    using conjunct2 [OF conjunct2 [OF t]] n l by simp
  with h p l show ?thesis by simp
qed

section \<open>Properties of \<^verbatim>\<open>execIptables\<close> and \<^verbatim>\<open>SetTrafficControl\<close>\<close>

lemma execIptables_replay:
  "(\<exists>n \<in> {1, 2, 3, 4}.
      commands (snd (execIptables replay_controller containerID args (replay_world rs)))
        = take n (remediation containerID args)) \<and>
   (\<forall>rest. rs = None # rest \<longrightarrow>
      execIptables replay_controller containerID args (replay_world rs)
        = (None, (replay_world rest)\<lparr>commands := take 1 (remediation containerID args)\<rparr>)) \<and>
   (\<forall>e1 e4 rest. rs = Some e1 # None # None # Some e4 # rest \<longrightarrow>
      execIptables replay_controller containerID args (replay_world rs)
        = (Some (Wrap e4 ''failed to execute iptables command''),
           (replay_world rest)\<lparr>commands := remediation containerID args\<rparr>)) \<and>
   (\<forall>e1 rest. rs = Some e1 # None # None # None # rest \<longrightarrow>
      execIptables replay_controller containerID args (replay_world rs)
        = (None, (replay_world rest)\<lparr>commands := remediation containerID args\<rparr>))"
  unfolding execIptables_def execCmd_def remediation_def replay_world_def
    replay_controller_def replayCli_def replay_exec_def
  apply (cases rs)
   apply simp
  subgoal for r1 rs1
    apply (cases r1; cases rs1)
       apply simp_all
    subgoal for e1 r2 rs2
      apply (cases r2; cases rs2)
         apply simp_all
      subgoal for r3 rs3
        apply (cases r3; cases rs3)
           apply simp_all
        subgoal for r4 rs4
          by (cases r4) simp_all
        done
      done
    done
  done

lemma SetTrafficControl_config_error:
  assumes "NetworkInspect (DockerCli c) (NetworkName c) w = (Inr netInfo, w1)"
  shows "(fst (SetTrafficControl c containerID blocked w)
            = Some (New ''more than one ipam config, cannot identify node subnet'')
          \<longleftrightarrow> Config (IPAM netInfo) = []) \<and>
         (fst (SetTrafficControl c containerID blocked w)
            = Some (New ''failed to identify subnet or gateway ip'')
          \<longleftrightarrow> Config (IPAM netInfo) \<noteq> [] \<and>
              (Gateway (hd (Config (IPAM netInfo))) = [] \<or>
               (if IPRange (hd (Config (IPAM netInfo))) \<noteq> []
                then IPRange (hd (Config (IPAM netInfo)))
                else Subnet (hd (Config (IPAM netInfo)))) = []))"
proof (cases "Config (IPAM netInfo)")
  case Nil
  then show ?thesis using assms by (simp add: SetTrafficControl_def)
next
  case (Cons cfg more)
  then show ?thesis using assms
    by (auto simp: SetTrafficControl_def Let_def split: prod.splits option.splits if_splits)
qed

text \<open>
  Claim C5, at the input where the code leaves it: a network with two addressing blocks
  is accepted and its first block used (the rules are installed from it), while a
  network with no block at all is refused with the message that speaks of more than
  one.
\<close>

theorem SetTrafficControl_two_blocks:
  "fst (SetTrafficControl sample_controller ''c1'' True two_block_world) = None \<and>
   map_option INPUT
     (sim_lookup ''c1'' (snd (SetTrafficControl sample_controller ''c1'' True two_block_world)))
     = Some [(''172.18.0.1'', ''ACCEPT''), (''172.18.0.0/16'', ''DROP'')] \<and>
   fst (SetTrafficControl sample_controller ''c1'' True no_block_world)
     = Some (New ''more than one ipam config, cannot identify node subnet'')"
  by code_simp

lemma find_map_update:
  assumes "find P xs = Some x" and "P (f x)"
  shows "find P (map (\<lambda>c. if P c then f c else c) xs) = Some (f x)"
  using assms by (induction xs) (auto split: if_splits)

lemma sim_lookup_update:
  assumes "sim_lookup containerID w = Some ct"
    and "summary (f ct) = summary ct" and "\<not> is_removing (f ct)"
  shows "sim_lookup containerID (sim_update containerID f w) = Some (f ct)"
proof -
  have "ID (summary ct) = containerID"
    using assms(1) unfolding sim_lookup_def by (auto simp: find_Some_iff)
  then show ?thesis
    using assms find_map_update [of "\<lambda>c. ID (summary c) = containerID \<and> \<not> is_removing c"
       "containers w" ct f]
    by (simp add: sim_lookup_def sim_update_def)
qed

lemma networks_sim_update [simp]: "networks (sim_update containerID f w) = networks w"
  by (simp add: sim_update_def)

lemma run_iptables_keeps:
  assumes "run_iptables args x = Some y"
  shows "summary y = summary x \<and> status y = status x \<and>
         iptables_installed y = iptables_installed x \<and> files y = files x"
  using assms by (auto simp: run_iptables_def split: if_splits list.splits)

lemma sim_exec_ok:
  assumes "sim_lookup containerID w = Some ct" and "status ct = Running"
    and "run_command cmd ct = Some ct'"
  shows "sim_exec containerID cmd w = (None, sim_update containerID (\<lambda>c. ct') w)"
  using assms by (simp add: sim_exec_def)

lemma sim_exec_fail:
  assumes "sim_lookup containerID w = Some ct" and "status ct = Running"
    and "run_command cmd ct = None"
  shows "sim_exec containerID cmd w = (Some (Lib ''command failed''), w)"
  using assms by (simp add: sim_exec_def)

lemma run_command_iptables:
  "run_command (''iptables'' # args) ct =
     (if iptables_installed ct then run_iptables args ct else None)"
  by (simp add: run_command_def)

lemma running_not_removing: "status ct = Running \<Longrightarrow> \<not> is_removing ct"
  by (simp add: is_removing_def)

lemma sim_execIptables:
  assumes cli: "DockerCli c = simCli"
    and lk: "sim_lookup containerID w = Some ct" and run: "status ct = Running"
    and ok: "run_iptables args (ct\<lparr>iptables_installed := True\<rparr>) = Some ct'"
  shows "\<exists>w'. execIptables c containerID args w = (None, w') \<and>
              sim_lookup containerID w' = Some ct' \<and> networks w' = networks w"
proof -
  have keep: "summary ct' = summary ct" "status ct' = Running"
    using run_iptables_keeps [OF ok] run by simp_all
  have ex: "execCmd c containerID cmd v = sim_exec containerID cmd v" for cmd v
    by (simp add: execCmd_def cli simCli_def)
  show ?thesis
  proof (cases "iptables_installed ct")
    case True
    then have eq: "ct\<lparr>iptables_installed := True\<rparr> = ct" by simp
    have "run_iptables args ct = Some ct'" using ok unfolding eq .
    then have "run_command (''iptables'' # args) ct = Some ct'"
      using True by (simp add: run_command_iptables)
    then have 1: "sim_exec containerID (''iptables'' # args) w
                  = (None, sim_update containerID (\<lambda>c. ct') w)"
      by (rule sim_exec_ok [OF lk run])
    have "sim_lookup containerID (sim_update containerID (\<lambda>c. ct') w) = Some ct'"
      using sim_lookup_update [OF lk, of "\<lambda>c. ct'"] keep running_not_removing by simp
    then show ?thesis using 1 by (simp add: execIptables_def ex)
  next
    case False
    define ct1 where "ct1 = ct\<lparr>iptables_installed := True\<rparr>"
    define w2 where "w2 = sim_update containerID (\<lambda>c. ct) w"
    define w3 where "w3 = sim_update containerID (\<lambda>c. ct1) w2"
    define w4 where "w4 = sim_update containerID (\<lambda>c. ct') w3"
    have 1: "sim_exec containerID (''iptables'' # args) w = (Some (Lib ''command failed''), w)"
      using False by (intro sim_exec_fail [OF lk run]) (simp add: run_command_iptables)
    have 2: "sim_exec containerID [''apt-get'', ''update''] w = (None, w2)"
      unfolding w2_def by (intro sim_exec_ok [OF lk run]) (simp add: run_command_def)
    have lk2: "sim_lookup containerID w2 = Some ct"
      unfolding w2_def using sim_lookup_update [OF lk, of "\<lambda>c. ct"] run running_not_removing
      by simp
    have 3: "sim_exec containerID [''apt-get'', ''-y'', ''install'', ''iptables''] w2 = (None, w3)"
      unfolding w3_def ct1_def by (intro sim_exec_ok [OF lk2 run]) (simp add: run_command_def)
    have run1: "status ct1 = Running" using run by (simp add: ct1_def)
    have lk3: "sim_lookup containerID w3 = Some ct1"
      unfolding w3_def using sim_lookup_update [OF lk2, of "\<lambda>c. ct1"] run1 running_not_removing
      by (simp add: ct1_def)
    have 4: "sim_exec containerID (''iptables'' # args) w3 = (None, w4)"
      unfolding w4_def using ok
      by (intro sim_exec_ok [OF lk3 run1]) (simp add: run_command_iptables ct1_def)
    have lk4: "sim_lookup containerID w4 = Some ct'"
      unfolding w4_def using sim_lookup_update [OF lk3, of "\<lambda>c. ct'"] keep running_not_removing
      by (simp add: ct1_def)
    have "networks w4 = networks w" by (simp add: w4_def w3_def w2_def)
    then show ?thesis using 1 2 3 4 lk4 by (simp add: execIptables_def ex)
  qed
qed

text \<open>
  Claim C7. On the replaying backend, whatever the replies: one call of \<^verbatim>\<open>execIptables\<close>
  issues a prefix of the four commands of \<open>remediation\<close> and nothing else, so the package
  index refresh and the installation run at most once and the rule is attempted at most
  twice. When the first attempt succeeds nothing else is issued. When it fails and both
  installation steps succeed, the rule is attempted once more: if that attempt fails
  the call returns its error, wrapped, with no further command; if it succeeds the call
  succeeds. On the daemon model, for a running container without the tool, the call
  succeeds, the tool is installed afterwards and the rule is applied.
\<close>

theorem execIptables_single_retry:
  "(\<exists>n \<in> {1, 2, 3, 4}.
      commands (snd (execIptables replay_controller containerID args (replay_world rs)))
        = take n (remediation containerID args)) \<and>
   (\<forall>rest. rs = None # rest \<longrightarrow>
      execIptables replay_controller containerID args (replay_world rs)
        = (None, (replay_world rest)\<lparr>commands := take 1 (remediation containerID args)\<rparr>)) \<and>
   (\<forall>e1 e4 rest. rs = Some e1 # None # None # Some e4 # rest \<longrightarrow>
      execIptables replay_controller containerID args (replay_world rs)
        = (Some (Wrap e4 ''failed to execute iptables command''),
           (replay_world rest)\<lparr>commands := remediation containerID args\<rparr>)) \<and>
   (\<forall>e1 rest. rs = Some e1 # None # None # None # rest \<longrightarrow>
      execIptables replay_controller containerID args (replay_world rs)
        = (None, (replay_world rest)\<lparr>commands := remediation containerID args\<rparr>)) \<and>
   (DockerCli sc = simCli \<and> sim_lookup containerID sw = Some ct \<and> status ct = Running \<and>
    \<not> iptables_installed ct \<and>
    run_iptables args (ct\<lparr>iptables_installed := True\<rparr>) = Some ct' \<longrightarrow>
      (\<exists>sw'. execIptables sc containerID args sw = (None, sw') \<and>
             sim_lookup containerID sw' = Some ct' \<and> iptables_installed ct'))"
proof (intro conjI)
  show "\<exists>n \<in> {1, 2, 3, 4}.
      commands (snd (execIptables replay_controller containerID args (replay_world rs)))
        = take n (remediation containerID args)"
    by (rule execIptables_replay [THEN conjunct1])
  show "\<forall>rest. rs = None # rest \<longrightarrow>
      execIptables replay_controller containerID args (replay_world rs)
        = (None, (replay_world rest)\<lparr>commands := take 1 (remediation containerID args)\<rparr>)"
    by (rule execIptables_replay [THEN conjunct2, THEN conjunct1])
  show "\<forall>e1 e4 rest. rs = Some e1 # None # None # Some e4 # rest \<longrightarrow>
      execIptables replay_controller containerID args (replay_world rs)
        = (Some (Wrap e4 ''failed to execute iptables command''),
           (replay_world rest)\<lparr>commands := remediation containerID args\<rparr>)"
    by (rule execIptables_replay [THEN conjunct2, THEN conjunct2, THEN conjunct1])
  show "\<forall>e1 rest. rs = Some e1 # None # None # None # rest \<longrightarrow>
      execIptables replay_controller containerID args (replay_world rs)
        = (None, (replay_world rest)\<lparr>commands := remediation containerID args\<rparr>)"
    by (rule execIptables_replay [THEN conjunct2, THEN conjunct2, THEN conjunct2])
  show "DockerCli sc = simCli \<and> sim_lookup containerID sw = Some ct \<and> status ct = Running \<and>
    \<not> iptables_installed ct \<and>
    run_iptables args (ct\<lparr>iptables_installed := True\<rparr>) = Some ct' \<longrightarrow>
      (\<exists>sw'. execIptables sc containerID args sw = (None, sw') \<and>
             sim_lookup containerID sw' = Some ct' \<and> iptables_installed ct')"
  proof
    assume a: "DockerCli sc = simCli \<and> sim_lookup containerID sw = Some ct \<and>
      status ct = Running \<and> \<not> iptables_installed ct \<and>
      run_iptables args (ct\<lparr>iptables_installed := True\<rparr>) = Some ct'"
    then have "iptables_installed ct'"
      using run_iptables_keeps [of args "ct\<lparr>iptables_installed := True\<rparr>" ct'] by simp
    moreover have "\<exists>sw'. execIptables sc containerID args sw = (None, sw') \<and>
              sim_lookup containerID sw' = Some ct' \<and> networks sw' = networks sw"
      using a sim_execIptables [of sc containerID sw ct args ct'] by blast
    ultimately show "\<exists>sw'. execIptables sc containerID args sw = (None, sw') \<and>
             sim_lookup containerID sw' = Some ct' \<and> iptables_installed ct'"
      by blast
  qed
qed

theorem execIptables_single_retry_witness:
  "execIptables replay_controller ''c1'' [''-F'']
     (replay_world [Some (Lib ''iptables: executable file not found''), None, None,
                    Some (Lib ''exit status 4'')])
   = (Some (Wrap (Lib ''exit status 4'') ''failed to execute iptables command''),
      (replay_world [])\<lparr>commands :=
         [(''c1'', [''iptables'', ''-F'']),
          (''c1'', [''apt-get'', ''update'']),
          (''c1'', [''apt-get'', ''-y'', ''install'', ''iptables'']),
          (''c1'', [''iptables'', ''-F''])]\<rparr>) \<and>
   DockerCli sample_controller = simCli \<and>
   sim_lookup ''c1'' sample_world = Some sample_node \<and>
   status sample_node = Running \<and> \<not> iptables_installed sample_node \<and>
   (\<exists>sw'. execIptables sample_controller ''c1'' [''-F''] sample_world = (None, sw') \<and>
          sim_lookup ''c1'' sw' = Some (sample_node\<lparr>iptables_installed := True\<rparr>))"
proof -
  note t = execIptables_single_retry [of "''c1''" "[''-F'']"
      "[Some (Lib ''iptables: executable file not found''), None, None,
        Some (Lib ''exit status 4'')]"
      sample_controller sample_world sample_node "sample_node\<lparr>iptables_installed := True\<rparr>"]
  have r: "execIptables replay_controller ''c1'' [''-F'']
     (replay_world [Some (Lib ''iptables: executable file not found''), None, None,
                    Some (Lib ''exit status 4'')])
   = (Some (Wrap (Lib ''exit status 4'') ''failed to execute iptables command''),
      (replay_world [])\<lparr>commands :=
         [(''c1'', [''iptables'', ''-F'']),
          (''c1'', [''apt-get'', ''update'']),
          (''c1'', [''apt-get'', ''-y'', ''install'', ''iptables'']),
          (''c1'', [''iptables'', ''-F''])]\<rparr>)"
    using t [THEN conjunct2, THEN conjunct2, THEN conjunct1] by (simp add: remediation_def)
  have h1: "DockerCli sample_controller = simCli" by (simp add: sample_controller_def)
  have h2: "sim_lookup ''c1'' sample_world = Some sample_node" by code_simp
  have h3: "status sample_node = Running" "\<not> iptables_installed sample_node"
    by (simp_all add: sample_node_def)
  have h4: "run_iptables [''-F''] (sample_node\<lparr>iptables_installed := True\<rparr>)
              = Some (sample_node\<lparr>iptables_installed := True\<rparr>)"
    by (simp add: run_iptables_def sample_node_def)
  have s: "\<exists>sw'. execIptables sample_controller ''c1'' [''-F''] sample_world = (None, sw') \<and>
          sim_lookup ''c1'' sw' = Some (sample_node\<lparr>iptables_installed := True\<rparr>)"
    using t [THEN conjunct2, THEN conjunct2, THEN conjunct2, THEN conjunct2] h1 h2 h3 h4
    by blast
  show ?thesis using r h1 h2 h3 s by blast
qed

lemma verdict_blocked:
  "(matches gw pkt \<longrightarrow> verdict matches policy [(gw, ''ACCEPT''), (nodes, ''DROP'')] pkt = ''ACCEPT'') \<and>
   (matches nodes pkt \<and> \<not> matches gw pkt \<longrightarrow>
      verdict matches policy [(gw, ''ACCEPT''), (nodes, ''DROP'')] pkt = ''DROP'')"
  by simp

lemma SetTrafficControl_sim_blocked:
  assumes cli: "DockerCli c = simCli"
    and net: "map_of (networks w) (NetworkName c) = Some netInfo"
    and cfg: "Config (IPAM netInfo) = cfg # others"
    and gw: "Gateway cfg \<noteq> []"
    and rng: "(if IPRange cfg \<noteq> [] then IPRange cfg else Subnet cfg) \<noteq> []"
    and lk: "sim_lookup containerID w = Some ct" and run: "status ct = Running"
  shows "\<exists>w' ct'. SetTrafficControl c containerID True w = (None, w') \<and>
           sim_lookup containerID w' = Some ct' \<and>
           INPUT ct' = [(Gateway cfg, ''ACCEPT''),
                        (if IPRange cfg \<noteq> [] then IPRange cfg else Subnet cfg, ''DROP'')]"
proof -
  define ipRange where "ipRange = (if IPRange cfg \<noteq> [] then IPRange cfg else Subnet cfg)"
  define ct1 where "ct1 = ct\<lparr>iptables_installed := True, INPUT := []\<rparr>"
  define ct2 where "ct2 = ct1\<lparr>INPUT := [(ipRange, ''DROP'')]\<rparr>"
  define ct3 where "ct3 = ct2\<lparr>INPUT := [(Gateway cfg, ''ACCEPT''), (ipRange, ''DROP'')]\<rparr>"
  have ni: "NetworkInspect (DockerCli c) (NetworkName c) w = (Inr netInfo, w)"
    using net by (simp add: cli simCli_def sim_NetworkInspect_def)
  obtain w1 where 1: "execIptables c containerID [''-F''] w = (None, w1)"
    and lk1: "sim_lookup containerID w1 = Some ct1"
    using sim_execIptables [OF cli lk run, of "[''-F'']" ct1]
    by (auto simp: run_iptables_def ct1_def)
  have run1: "status ct1 = Running" using run by (simp add: ct1_def)
  obtain w2 where 2: "execIptables c containerID
        [''-I'', ''INPUT'', ''-s'', ipRange, ''-j'', ''DROP''] w1 = (None, w2)"
    and lk2: "sim_lookup containerID w2 = Some ct2"
    using sim_execIptables [OF cli lk1 run1,
        of "[''-I'', ''INPUT'', ''-s'', ipRange, ''-j'', ''DROP'']" ct2]
    by (auto simp: run_iptables_def ct1_def ct2_def)
  have run2: "status ct2 = Running" using run1 by (simp add: ct2_def)
  obtain w3 where 3: "execIptables c containerID
        [''-I'', ''INPUT'', ''-s'', Gateway cfg, ''-j'', ''ACCEPT''] w2 = (None, w3)"
    and lk3: "sim_lookup containerID w3 = Some ct3"
    using sim_execIptables [OF cli lk2 run2,
        of "[''-I'', ''INPUT'', ''-s'', Gateway cfg, ''-j'', ''ACCEPT'']" ct3]
    by (auto simp: run_iptables_def ct1_def ct2_def ct3_def)
  have run3: "status ct3 = Running" using run2 by (simp add: ct3_def)
  obtain w4 where 4: "execIptables c containerID [''-S''] w3 = (None, w4)"
    and lk4: "sim_lookup containerID w4 = Some ct3"
    using sim_execIptables [OF cli lk3 run3, of "[''-S'']" ct3]
    by (auto simp: run_iptables_def ct1_def ct2_def ct3_def)
  have "SetTrafficControl c containerID True w = (None, w4)"
    using ni cfg gw rng 1 2 3 4
    by (simp add: SetTrafficControl_def Let_def ipRange_def)
  moreover have "INPUT ct3 = [(Gateway cfg, ''ACCEPT''), (ipRange, ''DROP'')]"
    by (simp add: ct3_def)
  ultimately show ?thesis using lk4 unfolding ipRange_def by blast
qed

lemma SetTrafficControl_replay_blocked:
  assumes cfg: "Config (IPAM netInfo) = cfg # others"
    and gw: "Gateway cfg \<noteq> []"
    and rng: "(if IPRange cfg \<noteq> [] then IPRange cfg else Subnet cfg) \<noteq> []"
  shows "fst (SetTrafficControl replay_controller containerID True (replay_network netInfo)) = None \<and>
     commands (snd (SetTrafficControl replay_controller containerID True (replay_network netInfo)))
       = [(containerID, [''iptables'', ''-F'']),
          (containerID, [''iptables'', ''-I'', ''INPUT'', ''-s'',
               (if IPRange cfg \<noteq> [] then IPRange cfg else Subnet cfg), ''-j'', ''DROP'']),
          (containerID, [''iptables'', ''-I'', ''INPUT'', ''-s'', Gateway cfg, ''-j'', ''ACCEPT'']),
          (containerID, [''iptables'', ''-S''])]"
  using assms
  by (simp add: SetTrafficControl_def Let_def execIptables_def execCmd_def replay_controller_def
      replayCli_def replay_exec_def replay_network_def replay_world_def)


text \<open>
  Claim C6. Let the network's first addressing block have a gateway and a node range
  (the allocation range when it is set, the subnet otherwise). With \<open>blocked = True\<close>
  the controller issues, when every command succeeds, exactly: the flush, the insertion
  of the rule that drops the node range, the insertion of the rule that accepts the
  gateway, and the listing, in this order. On the daemon model, for a running container,
  the call succeeds and leaves the chain with the accept rule for the gateway first and
  the drop rule for the range second. On that chain, however sources match packets and
  whatever the chain's policy, a packet from the gateway is accepted and a packet from
  the range that is not from the gateway is dropped.
\<close>

theorem SetTrafficControl_blocked:
  assumes cfg: "Config (IPAM netInfo) = cfg # others"
    and gw: "Gateway cfg \<noteq> []"
    and rng: "(if IPRange cfg \<noteq> [] then IPRange cfg else Subnet cfg) \<noteq> []"
  shows
    "fst (SetTrafficControl replay_controller containerID True (replay_network netInfo)) = None \<and>
     commands (snd (SetTrafficControl replay_controller containerID True (replay_network netInfo)))
       = [(containerID, [''iptables'', ''-F'']),
          (containerID, [''iptables'', ''-I'', ''INPUT'', ''-s'',
               (if IPRange cfg \<noteq> [] then IPRange cfg else Subnet cfg), ''-j'', ''DROP'']),
          (containerID, [''iptables'', ''-I'', ''INPUT'', ''-s'', Gateway cfg, ''-j'', ''ACCEPT'']),
          (containerID, [''iptables'', ''-S''])] \<and>
     (DockerCli c = simCli \<and> map_of (networks w) (NetworkName c) = Some netInfo \<and>
      sim_lookup containerID w = Some ct \<and> status ct = Running \<longrightarrow>
        (\<exists>w' ct'.
           SetTrafficControl c containerID True w = (None, w') \<and>
           sim_lookup containerID w' = Some ct' \<and>
           INPUT ct' = [(Gateway cfg, ''ACCEPT''),
                        (if IPRange cfg \<noteq> [] then IPRange cfg else Subnet cfg, ''DROP'')])) \<and>
     (matches (Gateway cfg) pkt \<longrightarrow>
        verdict matches policy
          [(Gateway cfg, ''ACCEPT''),
           (if IPRange cfg \<noteq> [] then IPRange cfg else Subnet cfg, ''DROP'')] pkt = ''ACCEPT'') \<and>
     (matches (if IPRange cfg \<noteq> [] then IPRange cfg else Subnet cfg) pkt \<and>
      \<not> matches (Gateway cfg) pkt \<longrightarrow>
        verdict matches policy
          [(Gateway cfg, ''ACCEPT''),
           (if IPRange cfg \<noteq> [] then IPRange cfg else Subnet cfg, ''DROP'')] pkt = ''DROP'')"
proof -
  note replay = SetTrafficControl_replay_blocked [OF cfg gw rng, of containerID]
  have sim: "DockerCli c = simCli \<and> map_of (networks w) (NetworkName c) = Some netInfo \<and>
      sim_lookup containerID w = Some ct \<and> status ct = Running \<longrightarrow>
        (\<exists>w' ct'.
           SetTrafficControl c containerID True w = (None, w') \<and>
           sim_lookup containerID w' = Some ct' \<and>
           INPUT ct' = [(Gateway cfg, ''ACCEPT''),
                        (if IPRange cfg \<noteq> [] then IPRange cfg else Subnet cfg, ''DROP'')])"
    using SetTrafficControl_sim_blocked [of c w netInfo cfg others containerID ct] cfg gw rng
    by blast
  have v1: "matches (Gateway cfg) pkt \<longrightarrow>
        verdict matches policy
          [(Gateway cfg, ''ACCEPT''),
           (if IPRange cfg \<noteq> [] then IPRange cfg else Subnet cfg, ''DROP'')] pkt = ''ACCEPT''"
    by simp
  have v2: "matches (if IPRange cfg \<noteq> [] then IPRange cfg else Subnet cfg) pkt \<and>
      \<not> matches (Gateway cfg) pkt \<longrightarrow>
        verdict matches policy
          [(Gateway cfg, ''ACCEPT''),
           (if IPRange cfg \<noteq> [] then IPRange cfg else Subnet cfg, ''DROP'')] pkt = ''DROP''"
    by simp
  show ?thesis
    by (intro conjI) (rule conjunct1 [OF replay], rule conjunct2 [OF replay], rule sim, rule v1, rule v2)
qed

theorem SetTrafficControl_blocked_witness:
  "Config (IPAM sample_network)
     = [\<lparr>Subnet = ''172.18.0.0/16'', IPRange = [], Gateway = ''172.18.0.1''\<rparr>] \<and>
   sim_lookup ''c1'' sample_world = Some sample_node \<and> status sample_node = Running \<and>
   sample_matches ''172.18.0.1'' ''172.18.0.1'' \<and>
   sample_matches ''172.18.0.0/16'' ''172.18.0.3'' \<and>
   \<not> sample_matches ''172.18.0.1'' ''172.18.0.3'' \<and>
   (\<exists>w' ct'.
      SetTrafficControl sample_controller ''c1'' True sample_world = (None, w') \<and>
      sim_lookup ''c1'' w' = Some ct' \<and>
      INPUT ct' = [(''172.18.0.1'', ''ACCEPT''), (''172.18.0.0/16'', ''DROP'')]) \<and>
   verdict sample_matches ''ACCEPT''
     [(''172.18.0.1'', ''ACCEPT''), (''172.18.0.0/16'', ''DROP'')] ''172.18.0.1'' = ''ACCEPT'' \<and>
   verdict sample_matches ''ACCEPT''
     [(''172.18.0.1'', ''ACCEPT''), (''172.18.0.0/16'', ''DROP'')] ''172.18.0.3'' = ''DROP''"
proof -
  define cfg where "cfg = \<lparr>Subnet = ''172.18.0.0/16'', IPRange = [], Gateway = ''172.18.0.1''\<rparr>"
  have h1: "Config (IPAM sample_network) = cfg # []"
    by (simp add: sample_network_def cfg_def)
  have h2: "Gateway cfg \<noteq> []" by (simp add: cfg_def)
  have h3: "(if IPRange cfg \<noteq> [] then IPRange cfg else Subnet cfg) \<noteq> []"
    by (simp add: cfg_def)
  have h4: "DockerCli sample_controller = simCli" by (simp add: sample_controller_def)
  have h5: "map_of (networks sample_world) (NetworkName sample_controller) = Some sample_network"
    by (simp add: sample_world_def sample_controller_def)
  have h6: "sim_lookup ''c1'' sample_world = Some sample_node" by code_simp
  have h7: "status sample_node = Running" by (simp add: sample_node_def)
  have m1: "sample_matches ''172.18.0.1'' ''172.18.0.1''" by (simp add: sample_matches_def)
  have m2: "sample_matches ''172.18.0.0/16'' ''172.18.0.3''"
    and m3: "\<not> sample_matches ''172.18.0.1'' ''172.18.0.3''"
    by (simp_all add: sample_matches_def)
  note t1 = SetTrafficControl_blocked [OF h1 h2 h3,
      of "''c1''" sample_controller sample_world sample_node sample_matches "''172.18.0.1''" "''ACCEPT''"]
  note t2 = SetTrafficControl_blocked [OF h1 h2 h3,
      of "''c1''" sample_controller sample_world sample_node sample_matches "''172.18.0.3''" "''ACCEPT''"]
  have e: "\<exists>w' ct'.
      SetTrafficControl sample_controller ''c1'' True sample_world = (None, w') \<and>
      sim_lookup ''c1'' w' = Some ct' \<and>
      INPUT ct' = [(''172.18.0.1'', ''ACCEPT''), (''172.18.0.0/16'', ''DROP'')]"
    using conjunct1 [OF conjunct2 [OF conjunct2 [OF t1]]] h4 h5 h6 h7 by (simp add: cfg_def)
  have v1: "verdict sample_matches ''ACCEPT''
     [(''172.18.0.1'', ''ACCEPT''), (''172.18.0.0/16'', ''DROP'')] ''172.18.0.1'' = ''ACCEPT''"
    using conjunct1 [OF conjunct2 [OF conjunct2 [OF conjunct2 [OF t1]]]] m1
    by (simp add: cfg_def)
  have v2: "verdict sample_matches ''ACCEPT''
     [(''172.18.0.1'', ''ACCEPT''), (''172.18.0.0/16'', ''DROP'')] ''172.18.0.3'' = ''DROP''"
    using conjunct2 [OF conjunct2 [OF conjunct2 [OF conjunct2 [OF t2]]]] m2 m3
    by (simp add: cfg_def)
  show ?thesis using h1 h6 h7 m1 m2 m3 e v1 v2 unfolding cfg_def by blast
qed

section \<open>Properties of \<^verbatim>\<open>RemoveNode\<close>\<close>

lemma RemoveNode_stop_fails:
  assumes "fst (ContainerStop (DockerCli c) containerID w) = Some err"
  shows "RemoveNode fuel c containerID w =
           (Returned (Some (Wrap err ''failed to stop container'')),
            snd (ContainerStop (DockerCli c) containerID w))"
  using assms by (cases "ContainerStop (DockerCli c) containerID w") (simp add: RemoveNode_def)

lemma RemoveNode_stop_ok:
  assumes "fst (ContainerStop (DockerCli c) containerID w) = None"
  shows "RemoveNode fuel c containerID w =
           RemoveNode_wait fuel c containerID
             (snd (ContainerRemove (DockerCli c) containerID
                (snd (ContainerStop (DockerCli c) containerID w))))"
  using assms
  by (cases "ContainerStop (DockerCli c) containerID w")
     (simp add: RemoveNode_def split: prod.splits)

lemma RemoveNode_wait_gone:
  assumes "fst (ListNodes c w) = Returned (Inr nodes)"
    and "\<not> list_ex (\<lambda>node. ContainerID node = containerID) nodes"
  shows "RemoveNode_wait (Suc fuel) c containerID w = (Returned None, snd (ListNodes c w))"
  using assms by (cases "ListNodes c w") simp

lemma RemoveNode_wait_again:
  assumes "fst (ListNodes c w) = Returned (Inr nodes)"
    and "list_ex (\<lambda>node. ContainerID node = containerID) nodes"
  shows "RemoveNode_wait (Suc fuel) c containerID w =
           RemoveNode_wait fuel c containerID (snd (ListNodes c w))"
  using assms by (cases "ListNodes c w") simp

lemma RemoveNode_wait_error:
  assumes "fst (ListNodes c w) = Returned (Inl err)"
  shows "RemoveNode_wait (Suc fuel) c containerID w =
           (Returned (Some (Wrap err ''failed to list nodes'')), snd (ListNodes c w))"
  using assms by (cases "ListNodes c w") simp

lemma RemoveNode_sim_gone:
  assumes "DockerCli c = simCli" and "sim_lookup containerID w = None"
  shows "RemoveNode fuel c containerID w =
           (Returned (Some (Wrap (Lib ''No such container'') ''failed to stop container'')), w)"
  using assms by (simp add: RemoveNode_def simCli_def sim_ContainerStop_def)

lemma sim_stop_tolerant:
  assumes "sim_lookup containerID w = Some ct"
  shows "fst (ContainerStop simCli containerID w) = None"
  using assms by (simp add: simCli_def sim_ContainerStop_def)

text \<open>
  On the daemon model the waiting loop ends. A listing changes nothing but the age of
  the containers under removal; after an accepted stop and removal every container of the
  identifier is under removal, for at most the daemon's teardown more listings, so that
  more fuel than the teardown is enough.
\<close>

lemma ReadNodeState_sim_world:
  "DockerCli c = simCli \<Longrightarrow> snd (ReadNodeState c containerID w) = w"
  by (simp add: ReadNodeState_def simCli_def sim_CopyFromContainer_def Let_def
      split: option.splits sum.splits)

lemma ListNodes_containers_sim:
  assumes cli: "DockerCli c = simCli"
    and ok: "\<forall>container \<in> set cs. parseContainerInfo container \<noteq> NilPanic"
  shows "\<exists>result. ListNodes_containers c cs nodes w = (Returned result, w)"
  using ok
proof (induction cs arbitrary: nodes)
  case Nil
  then show ?case by simp
next
  case (Cons container rest)
  then have rest: "\<forall>container \<in> set rest. parseContainerInfo container \<noteq> NilPanic" by simp
  show ?case
  proof (cases "parseContainerInfo container")
    case (Returned r)
    show ?thesis
    proof (cases r)
      case None
      then show ?thesis using Returned Cons.IH [OF rest, of nodes] by simp
    next
      case (Some node)
      obtain res where rn: "ReadNodeState c (ContainerID node) w = (res, w)"
        using ReadNodeState_sim_world [OF cli, of "ContainerID node" w]
        by (cases "ReadNodeState c (ContainerID node) w") simp
      define node' where "node' = (case res of Inr (Some nodeState) \<Rightarrow>
           node\<lparr>NodeInfo.Expiry := DockerNodeState.Expiry nodeState\<rparr> | _ \<Rightarrow> node)"
      have "ListNodes_containers c (container # rest) nodes w =
              ListNodes_containers c rest (nodes @ [node']) w"
        using Returned Some rn by (simp add: node'_def split: sum.splits option.splits)
      then show ?thesis using Cons.IH [OF rest, of "nodes @ [node']"] by simp
    qed
  next
    case NilPanic
    then show ?thesis using Cons.prems by simp
  next
    case OutOfFuel
    then show ?thesis using parseContainerInfo_fuel by blast
  qed
qed

lemma ListNodes_sim:
  assumes cli: "DockerCli c = simCli" and calm: "calm w"
  shows "\<exists>nodes. ListNodes c w = (Returned (Inr nodes), aged w) \<and>
           map ContainerID nodes =
             map ID (filter labelled
               (map summary (filter (\<lambda>ct. status ct \<noteq> Removing 0) (containers w))))"
proof -
  define listed where "listed = filter (\<lambda>ct. status ct \<noteq> Removing 0) (containers w)"
  have cl: "ContainerList (DockerCli c) w = (Inr (map summary listed), aged w)"
    by (simp add: cli simCli_def aged_def sim_ContainerList_def listed_def Let_def)
  have ok: "\<forall>container \<in> set (map summary listed). parseContainerInfo container \<noteq> NilPanic"
    using calm by (auto simp: calm_def listed_def list_all_iff)
  obtain result where r: "ListNodes_containers c (map summary listed) [] (aged w)
                            = (Returned result, aged w)"
    using ListNodes_containers_sim [OF cli ok] by blast
  have "map ContainerID result = map ID (filter labelled (map summary listed))"
    using ListNodes_containers_nodes [OF r] by simp
  moreover have "ListNodes c w = (Returned (Inr result), aged w)"
    using cl r by (simp add: ListNodes_def)
  ultimately show ?thesis unfolding listed_def by blast
qed

lemma aged_containers:
  "containers (aged w) =
     map (\<lambda>c. case status c of
                 Removing n \<Rightarrow> c\<lparr>status := Removing (n - 1)\<rparr>
               | Running \<Rightarrow> c
               | Exited \<Rightarrow> c)
       (filter (\<lambda>c. status c \<noteq> Removing 0) (containers w))"
  by (simp add: aged_def sim_ContainerList_def Let_def)

lemma calm_aged: "calm w \<Longrightarrow> calm (aged w)"
  by (auto simp: calm_def aged_containers list_all_iff split: sim_status.splits)

lemma fading_aged: "fading containerID k w \<Longrightarrow> fading containerID (k - 1) (aged w)"
  by (auto simp: fading_def lingering_def aged_containers list_all_iff split: sim_status.splits)

lemma fading_lookup: "fading containerID k w \<Longrightarrow> sim_lookup containerID w = None"
  by (auto simp: fading_def lingering_def sim_lookup_def find_None_iff list_all_iff
      is_removing_def split: sim_status.splits)

lemma fading_zero_unlisted:
  assumes "fading containerID 0 w"
  shows "containerID \<notin> set (map ID (filter labelled
               (map summary (filter (\<lambda>ct. status ct \<noteq> Removing 0) (containers w)))))"
proof
  assume "containerID \<in> set (map ID (filter labelled
               (map summary (filter (\<lambda>ct. status ct \<noteq> Removing 0) (containers w)))))"
  then obtain ct where ct: "ct \<in> set (containers w)" "status ct \<noteq> Removing 0"
      "ID (summary ct) = containerID"
    by auto
  have "lingering containerID 0 ct" using assms ct(1) by (simp add: fading_def list_all_iff)
  then show False using ct(2,3) by (cases "status ct") (simp_all add: lingering_def)
qed

lemma RemoveNode_wait_sim:
  assumes cli: "DockerCli c = simCli"
  shows "fading containerID k w \<Longrightarrow> calm w \<Longrightarrow> k < fuel \<Longrightarrow>
         \<exists>w'. RemoveNode_wait fuel c containerID w = (Returned None, w') \<and>
              sim_lookup containerID w' = None"
proof (induction k arbitrary: fuel w)
  case 0
  obtain f where fuel: "fuel = Suc f" using "0.prems"(3) by (cases fuel) auto
  obtain nodes where l: "ListNodes c w = (Returned (Inr nodes), aged w)"
    and ids: "map ContainerID nodes =
             map ID (filter labelled
               (map summary (filter (\<lambda>ct. status ct \<noteq> Removing 0) (containers w))))"
    using ListNodes_sim [OF cli "0.prems"(2)] by blast
  have "containerID \<notin> set (map ContainerID nodes)"
    unfolding ids by (rule fading_zero_unlisted [OF "0.prems"(1)])
  then have "\<not> list_ex (\<lambda>node. ContainerID node = containerID) nodes"
    by (auto simp: list_ex_iff)
  then have "RemoveNode_wait fuel c containerID w = (Returned None, aged w)"
    using l by (simp add: fuel)
  moreover have "sim_lookup containerID (aged w) = None"
    using fading_aged [OF "0.prems"(1)] fading_lookup by blast
  ultimately show ?case by blast
next
  case (Suc k)
  obtain f where fuel: "fuel = Suc f" and kf: "k < f" using Suc.prems(3) by (cases fuel) auto
  obtain nodes where l: "ListNodes c w = (Returned (Inr nodes), aged w)"
    using ListNodes_sim [OF cli Suc.prems(2)] by blast
  have fa: "fading containerID k (aged w)" using fading_aged [OF Suc.prems(1)] by simp
  show ?case
  proof (cases "list_ex (\<lambda>node. ContainerID node = containerID) nodes")
    case True
    then have "RemoveNode_wait fuel c containerID w = RemoveNode_wait f c containerID (aged w)"
      using l by (simp add: fuel)
    then show ?thesis using Suc.IH [OF fa calm_aged [OF Suc.prems(2)] kf] by simp
  next
    case False
    then have "RemoveNode_wait fuel c containerID w = (Returned None, aged w)"
      using l by (simp add: fuel)
    then show ?thesis using fading_lookup [OF fa] by blast
  qed
qed


lemma RemoveNode_sim_requests:
  assumes cli: "DockerCli c = simCli" and ex: "sim_lookup containerID w = Some ct"
  shows "RemoveNode fuel c containerID w =
           RemoveNode_wait fuel c containerID
             (sim_update containerID (\<lambda>c. c\<lparr>status := Removing (teardown w)\<rparr>)
                (sim_update containerID (\<lambda>c. c\<lparr>status := Exited\<rparr>) w))"
proof -
  define w1 where "w1 = sim_update containerID (\<lambda>c. c\<lparr>status := Exited\<rparr>) w"
  have l1: "sim_lookup containerID w1 = Some (ct\<lparr>status := Exited\<rparr>)"
    unfolding w1_def by (rule sim_lookup_update [OF ex]) (simp_all add: is_removing_def)
  have t1: "teardown w1 = teardown w" by (simp add: w1_def sim_update_def)
  show ?thesis
    using ex l1 t1
    by (simp add: RemoveNode_def cli simCli_def sim_ContainerStop_def sim_ContainerRemove_def
        w1_def [symmetric])
qed

lemma requests_containers:
  "containers (sim_update containerID (\<lambda>c. c\<lparr>status := Removing k\<rparr>)
              (sim_update containerID (\<lambda>c. c\<lparr>status := Exited\<rparr>) w))
     = map (requested containerID k) (containers w)"
  by (simp add: sim_update_def requested_def Let_def comp_def)

lemma requested_summary: "summary (requested containerID k ct) = summary ct"
  by (simp add: requested_def Let_def)

lemma requested_lingering:
  assumes "is_removing ct \<longrightarrow> lingering containerID k ct"
  shows "lingering containerID k (requested containerID k ct)"
  using assms
  by (cases "status ct") (simp_all add: requested_def Let_def lingering_def is_removing_def)

lemma requests_fading:
  assumes "settled containerID w"
  shows "fading containerID (teardown w)
           (sim_update containerID (\<lambda>c. c\<lparr>status := Removing (teardown w)\<rparr>)
              (sim_update containerID (\<lambda>c. c\<lparr>status := Exited\<rparr>) w))"
  unfolding fading_def requests_containers
  using assms by (simp add: settled_def list_all_iff requested_lingering)

lemma requests_calm:
  assumes "calm w"
  shows "calm (sim_update containerID (\<lambda>c. c\<lparr>status := Removing (teardown w)\<rparr>)
              (sim_update containerID (\<lambda>c. c\<lparr>status := Exited\<rparr>) w))"
  unfolding calm_def requests_containers
  using assms by (simp add: calm_def list_all_iff requested_summary)

lemma RemoveNode_sim_returns:
  assumes cli: "DockerCli c = simCli" and ex: "sim_lookup containerID w = Some ct"
    and "calm w" and "settled containerID w" and "teardown w < fuel"
  shows "\<exists>w'. RemoveNode fuel c containerID w = (Returned None, w') \<and>
              sim_lookup containerID w' = None"
  unfolding RemoveNode_sim_requests [OF cli ex]
  by (rule RemoveNode_wait_sim [OF cli requests_fading [OF assms(4)]
        requests_calm [OF assms(3)] assms(5)])

text \<open>
  Claim C4 as stated fails: on the daemon model, removing the sample node succeeds and
  leaves no such container, and the second call then returns the error of the stop
  request.
\<close>

theorem RemoveNode_twice_counterexample:
  "fst (RemoveNode 5 sample_controller ''c1'' sample_world) = Returned None \<and>
   sim_lookup ''c1'' (snd (RemoveNode 5 sample_controller ''c1'' sample_world)) = None \<and>
   fst (RemoveNode 5 sample_controller ''c1''
          (snd (RemoveNode 5 sample_controller ''c1'' sample_world)))
     = Returned (Some (Wrap (Lib ''No such container'') ''failed to stop container''))"
  by code_simp

text \<open>
  Claim C4, amended. For any backend: when the stop request fails, \<^verbatim>\<open>RemoveNode\<close> returns
  that error, wrapped, and does nothing more; when it succeeds, the removal is requested,
  its result is dropped, and the waiting loop runs. One round of the loop lists the
  nodes: a failed listing is returned as an error, a listing without the identifier ends
  the call with success, a listing with it leads to the next round. On the daemon model
  the stop request succeeds for every container that exists, stopped or not, and fails
  for one that does not exist, so that a call for a container that is gone returns the
  error "failed to stop container"; and the call for a container that exists returns
  with success, leaving no such container, when no listed container lacks its endpoint
  and the fuel exceeds the daemon's teardown.
\<close>

theorem RemoveNode_behaviour:
  "(fst (ContainerStop (DockerCli c) containerID w) = Some err \<longrightarrow>
      RemoveNode fuel c containerID w =
        (Returned (Some (Wrap err ''failed to stop container'')),
         snd (ContainerStop (DockerCli c) containerID w))) \<and>
   (fst (ContainerStop (DockerCli c) containerID w) = None \<longrightarrow>
      RemoveNode fuel c containerID w =
        RemoveNode_wait fuel c containerID
          (snd (ContainerRemove (DockerCli c) containerID
             (snd (ContainerStop (DockerCli c) containerID w))))) \<and>
   (fst (ListNodes c w) = Returned (Inl err) \<longrightarrow>
      RemoveNode_wait (Suc fuel) c containerID w =
        (Returned (Some (Wrap err ''failed to list nodes'')), snd (ListNodes c w))) \<and>
   (fst (ListNodes c w) = Returned (Inr nodes) \<longrightarrow>
      RemoveNode_wait (Suc fuel) c containerID w =
        (if list_ex (\<lambda>node. ContainerID node = containerID) nodes
         then RemoveNode_wait fuel c containerID (snd (ListNodes c w))
         else (Returned None, snd (ListNodes c w)))) \<and>
   (DockerCli sc = simCli \<and> sim_lookup containerID sw = None \<longrightarrow>
      RemoveNode fuel sc containerID sw =
        (Returned (Some (Wrap (Lib ''No such container'') ''failed to stop container'')), sw)) \<and>
   (sim_lookup containerID sw = Some ct \<longrightarrow> fst (ContainerStop simCli containerID sw) = None) \<and>
   (DockerCli sc = simCli \<and> sim_lookup containerID sw = Some ct \<and> calm sw \<and>
    settled containerID sw \<and> teardown sw < fuel \<longrightarrow>
      (\<exists>sw'. RemoveNode fuel sc containerID sw = (Returned None, sw') \<and>
             sim_lookup containerID sw' = None))"
  using RemoveNode_stop_fails [of c containerID w err fuel]
    RemoveNode_stop_ok [of c containerID w fuel]
    RemoveNode_wait_error [of c w err fuel containerID]
    RemoveNode_wait_gone [of c w nodes containerID fuel]
    RemoveNode_wait_again [of c w nodes containerID fuel]
    RemoveNode_sim_gone [of sc containerID sw fuel]
    sim_stop_tolerant [of containerID sw ct]
    RemoveNode_sim_returns [of sc containerID sw ct fuel]
  by simp

theorem RemoveNode_behaviour_witness:
  "DockerCli sample_controller = simCli \<and> sim_lookup ''c1'' gone_world = None \<and>
   RemoveNode 5 sample_controller ''c1'' gone_world =
     (Returned (Some (Wrap (Lib ''No such container'') ''failed to stop container'')), gone_world) \<and>
   fst (ContainerStop (DockerCli sample_controller) ''c1'' sample_world) = None \<and>
   RemoveNode 5 sample_controller ''c1'' sample_world =
     RemoveNode_wait 5 sample_controller ''c1''
       (snd (ContainerRemove (DockerCli sample_controller) ''c1''
          (snd (ContainerStop (DockerCli sample_controller) ''c1'' sample_world)))) \<and>
   fst (RemoveNode 1 sample_controller ''c1'' sample_world) = OutOfFuel \<and>
   fst (RemoveNode 2 sample_controller ''c1'' sample_world) = Returned None \<and>
   sim_lookup ''c1'' sample_world = Some sample_node \<and> calm sample_world \<and>
   settled ''c1'' sample_world \<and> teardown sample_world < 2 \<and>
   (\<exists>sw'. RemoveNode 2 sample_controller ''c1'' sample_world = (Returned None, sw') \<and>
          sim_lookup ''c1'' sw' = None)"
proof -
  have h1: "DockerCli sample_controller = simCli" by (simp add: sample_controller_def)
  have h2: "sim_lookup ''c1'' gone_world = None" by code_simp
  have h3: "fst (ContainerStop (DockerCli sample_controller) ''c1'' sample_world) = None"
    by code_simp
  have r1: "RemoveNode 5 sample_controller ''c1'' gone_world =
     (Returned (Some (Wrap (Lib ''No such container'') ''failed to stop container'')), gone_world)"
    using RemoveNode_behaviour [of sample_controller "''c1''" sample_world _ 5 _
        sample_controller gone_world] h1 h2
    by simp
  have r2: "RemoveNode 5 sample_controller ''c1'' sample_world =
     RemoveNode_wait 5 sample_controller ''c1''
       (snd (ContainerRemove (DockerCli sample_controller) ''c1''
          (snd (ContainerStop (DockerCli sample_controller) ''c1'' sample_world))))"
    using RemoveNode_behaviour [of sample_controller "''c1''" sample_world _ 5] h3
    by simp
  have r3: "fst (RemoveNode 1 sample_controller ''c1'' sample_world) = OutOfFuel"
    by code_simp
  have r4: "fst (RemoveNode 2 sample_controller ''c1'' sample_world) = Returned None"
    by code_simp
  have h4: "sim_lookup ''c1'' sample_world = Some sample_node" by code_simp
  have h5: "calm sample_world" by code_simp
  have h6: "settled ''c1'' sample_world" by code_simp
  have h7: "teardown sample_world < 2" by code_simp
  have r5: "\<exists>sw'. RemoveNode 2 sample_controller ''c1'' sample_world = (Returned None, sw') \<and>
          sim_lookup ''c1'' sw' = None"
    using RemoveNode_behaviour [of sample_controller "''c1''" sample_world _ 2 _
        sample_controller sample_world sample_node, THEN conjunct2, THEN conjunct2,
        THEN conjunct2, THEN conjunct2, THEN conjunct2, THEN conjunct2]
      h1 h4 h5 h6 h7
    by blast
  show ?thesis using h1 h2 h3 r1 r2 r3 r4 h4 h5 h6 h7 r5 by simp
qed

section \<open>Properties of \<^verbatim>\<open>ReadNodeState\<close>\<close>



















section \<open>Writing the state and reading it back\<close>













end
